theory Spec2Isabelle
  imports Main "HOL-Library.Word" "HOL-Library.Finite_Map"
begin

section \<open>Backing stores of the V8 heap: a model of \<^verbatim>\<open>src/objects/backing-store.cc\<close>\<close>

text \<open>
  The development follows the release build of the file: \<^verbatim>\<open>DCHECK\<close>s and
  \<^verbatim>\<open>DebugCheckZero\<close> are compiled out there and appear below only as remarks, while
  \<^verbatim>\<open>CHECK\<close>, \<^verbatim>\<open>FATAL\<close> and \<^verbatim>\<open>FatalProcessOutOfMemory\<close> end the process and are
  results of their own.

  Values of type \<^verbatim>\<open>uint64_t\<close> are \<^typ>\<open>64 word\<close>. Values of type \<^verbatim>\<open>size_t\<close> and pointers
  are natural numbers, and every \<^verbatim>\<open>size_t\<close> product is reduced modulo the width of
  \<^verbatim>\<open>size_t\<close> on the target; the null pointer is \<open>0\<close>.

  A member \<^verbatim>\<open>x_\<close> of a class is the field \<open>x\<close> of the record; the members of
  \<^verbatim>\<open>SharedWasmMemoryData\<close> are prefixed with \<open>node_\<close>, those of \<^verbatim>\<open>AddressRegion\<close> with
  \<open>region_\<close>, and \<^verbatim>\<open>map_\<close> is \<open>registry_map\<close>.
\<close>

subsection \<open>Build configuration and constants\<close>

text \<open>
  The three branches of the preprocessor conditionals at the head of the file.
  \<^verbatim>\<open>V8_TARGET_ARCH_MIPS64\<close> is a 64 bit target.
\<close>

datatype target_arch = V8_TARGET_ARCH_MIPS64 | V8_TARGET_ARCH_64_BIT | V8_TARGET_ARCH_32_BIT

fun kUseGuardRegions :: "target_arch \<Rightarrow> bool" where
  "kUseGuardRegions V8_TARGET_ARCH_MIPS64 = True"
| "kUseGuardRegions V8_TARGET_ARCH_64_BIT = True"
| "kUseGuardRegions V8_TARGET_ARCH_32_BIT = False"

fun kAddressSpaceLimit :: "target_arch \<Rightarrow> 64 word" where
  "kAddressSpaceLimit V8_TARGET_ARCH_MIPS64 = 0x4000000000"
| "kAddressSpaceLimit V8_TARGET_ARCH_64_BIT = 0x10100000000"
| "kAddressSpaceLimit V8_TARGET_ARCH_32_BIT = 0xC0000000"

fun size_t_bits :: "target_arch \<Rightarrow> nat" where
  "size_t_bits V8_TARGET_ARCH_MIPS64 = 64"
| "size_t_bits V8_TARGET_ARCH_64_BIT = 64"
| "size_t_bits V8_TARGET_ARCH_32_BIT = 32"

definition GB :: "64 word" where
  "GB = 1024 * 1024 * 1024"

definition kNegativeGuardSize :: "64 word" where
  "kNegativeGuardSize = 2 * GB"

definition kFullGuardSize :: "64 word" where
  "kFullGuardSize = 10 * GB"

text \<open>
  \<^verbatim>\<open>wasm::kV8MaxWasmMemoryPages\<close> and \<^verbatim>\<open>wasm::kWasmPageSize\<close> come from
  \<^verbatim>\<open>src/wasm/wasm-limits.h\<close> and \<^verbatim>\<open>FLAG_correctness_fuzzer_suppressions\<close> from the flag
  definitions; none of them is part of the file, so they are fields of the configuration.
\<close>

record config =
  arch :: target_arch
  kV8MaxWasmMemoryPages :: nat
  kWasmPageSize :: nat
  FLAG_correctness_fuzzer_suppressions :: bool

subsection \<open>Address space accounting\<close>

text \<open>
  \<^verbatim>\<open>reserved_address_space_\<close> is the only state of the two functions. The loop of
  \<^verbatim>\<open>ReserveAddressSpace\<close> runs again exactly when \<^verbatim>\<open>compare_exchange_weak\<close> fails, which
  it does either spuriously or because another thread has stored a new count since the
  load. The list of interferences is the schedule of these failures: one element for each
  failing exchange, in order; when the schedule is used up the exchange succeeds. The
  function is total on every finite schedule.
\<close>

datatype interference = Spurious | Concurrent "64 word"

fun after_interference :: "interference \<Rightarrow> 64 word \<Rightarrow> 64 word" where
  "after_interference Spurious c = c"
| "after_interference (Concurrent v) c = v"

fun ReserveAddressSpace ::
  "target_arch \<Rightarrow> interference list \<Rightarrow> 64 word \<Rightarrow> 64 word \<Rightarrow> bool \<times> 64 word" where
  "ReserveAddressSpace a [] num_bytes old_count =
     (if old_count > kAddressSpaceLimit a then (False, old_count)
      else if kAddressSpaceLimit a - old_count < num_bytes then (False, old_count)
      else (True, old_count + num_bytes))"
| "ReserveAddressSpace a (i # sched) num_bytes old_count =
     (if old_count > kAddressSpaceLimit a then (False, old_count)
      else if kAddressSpaceLimit a - old_count < num_bytes then (False, old_count)
      else ReserveAddressSpace a sched num_bytes (after_interference i old_count))"

text \<open>\<^verbatim>\<open>fetch_sub\<close> wraps around; the \<^verbatim>\<open>DCHECK_LE\<close> on the old value is a remark only.\<close>

definition ReleaseReservation :: "64 word \<Rightarrow> 64 word \<Rightarrow> 64 word" where
  "ReleaseReservation num_bytes old_reserved = old_reserved - num_bytes"

subsection \<open>Guard regions\<close>

record AddressRegion =
  region_begin :: "64 word"
  region_size :: "64 word"

text \<open>
  \<^verbatim>\<open>GetGuardedRegion\<close> is for 64 bit targets only (\<^verbatim>\<open>DCHECK_EQ(8, sizeof(size_t))\<close>), so
  \<^verbatim>\<open>Address\<close> is a 64 bit word here and the subtraction wraps as the machine's does.
  The \<^verbatim>\<open>DCHECK\<close> that the start is a multiple of the allocation page size is a remark.
\<close>

definition GetGuardedRegion :: "64 word \<Rightarrow> 64 word \<Rightarrow> AddressRegion" where
  "GetGuardedRegion buffer_start byte_length =
     \<lparr> region_begin = buffer_start - (2 * GB), region_size = kFullGuardSize \<rparr>"

subsection \<open>Objects\<close>

datatype SharedFlag = kNotShared | kShared

datatype AllocationStatus =
  kSuccess | kSuccessAfterRetry | kAddressSpaceLimitReachedFailure | kOtherFailure

text \<open>A node of the list of attached memory objects. Pointers are addresses, \<open>0\<close> is null.\<close>

record SharedWasmMemoryData =
  node_next :: nat
  node_prev :: nat
  node_isolate :: nat
  node_memory_object :: nat

text \<open>
  \<^verbatim>\<open>type_specific_data_\<close> is a union of two pointers
  (\<^verbatim>\<open>v8_api_array_buffer_allocator\<close>, \<^verbatim>\<open>shared_wasm_memory_data\<close>): one field here.
\<close>

record BackingStore =
  buffer_start :: nat
  byte_length :: nat
  byte_capacity :: nat
  is_shared :: bool
  is_wasm_memory :: bool
  free_on_destruct :: bool
  has_guard_regions :: bool
  globally_registered :: bool
  type_specific_data :: nat

record JSArrayBuffer =
  ab_backing_store :: nat
  ab_byte_length :: nat

subsection \<open>The process and its environment\<close>

text \<open>
  The calls that the functions make are kept in a trace, one event for each call in the
  order the calls are made, with its arguments and the answer it got: the calls to the
  page allocator, the collector, the counters of the isolate, the array buffer allocator
  and \<^verbatim>\<open>memcpy\<close>, and those to \<^verbatim>\<open>ReserveAddressSpace\<close> and \<^verbatim>\<open>ReleaseReservation\<close>.
\<close>

datatype event =
    ReserveAddressSpace_ev "64 word" bool
  | ReleaseReservation_ev "64 word"
  | MemoryPressureNotification_ev nat "64 word list"
  | AllocatePages_ev nat nat nat
  | FreePages_ev nat nat bool
  | SetPermissions_ev nat nat bool
  | RecordStatus_ev nat AllocationStatus
  | AdjustAmountOfExternalAllocatedMemory_ev nat nat
  | Free_ev nat nat nat
  | memcpy_ev nat nat nat
  | RequestGrowSharedMemory_ev nat
  | NewJSSharedArrayBuffer_ev nat

text \<open>
  The page allocator and the garbage collector are not part of the file. Their answers are
  functions of everything that has happened so far, which is the most a deterministic
  environment can depend on; theorems hold for every such environment.

  A critical memory pressure notification collects garbage. Backing stores that die in the
  collection run \<^verbatim>\<open>~BackingStore\<close>, which gives their reservation back through
  \<^verbatim>\<open>ReleaseReservation\<close>; the answer of the collector is the list of these amounts.
\<close>

record platform =
  AllocatePages :: "event list \<Rightarrow> nat \<Rightarrow> nat \<Rightarrow> nat"
  FreePages :: "event list \<Rightarrow> nat \<Rightarrow> nat \<Rightarrow> bool"
  SetPermissions :: "event list \<Rightarrow> nat \<Rightarrow> nat \<Rightarrow> bool"
  MemoryPressureNotification :: "event list \<Rightarrow> 64 word list"

text \<open>
  \<^item> \<open>registry_map\<close> is the map \<^verbatim>\<open>map_\<close> of \<^verbatim>\<open>GlobalBackingStoreRegistryImpl\<close>; a weak
    pointer is the address of its object.
  \<^item> \<open>objects\<close> holds the \<^verbatim>\<open>BackingStore\<close> objects by address, \<open>live\<close> the addresses of
    those not yet destroyed: \<^verbatim>\<open>weak_ptr::lock\<close> succeeds on exactly these.
  \<^item> \<open>nodes\<close> holds the \<^verbatim>\<open>SharedWasmMemoryData\<close> objects by address.
  \<^item> \<open>last_object\<close> and \<open>last_node\<close> are the addresses \<^verbatim>\<open>new\<close> handed out last.
  \<^item> \<open>array_buffer\<close> maps the location of a memory object's handle to the array buffer of
    the memory object.
\<close>

record world =
  reserved_address_space :: "64 word"
  registry_map :: "nat \<rightharpoonup> nat"
  objects :: "nat \<Rightarrow> BackingStore"
  live :: "nat set"
  last_object :: nat
  nodes :: "(nat, SharedWasmMemoryData) fmap"
  last_node :: nat
  array_buffer :: "nat \<rightharpoonup> JSArrayBuffer"
  memory :: "nat \<Rightarrow> 8 word"
  trace :: "event list"

text \<open>
  The ways a call can fail to return. \<open>dangling_pointer\<close> stands for the use of a node
  pointer that is neither null nor the address of a node, which C++ leaves undefined,
  \<open>access_violation\<close> for the fault of an access to a page that cannot be read and written,
  which ends the process, and \<open>overlapping_copy\<close> for a call of \<^verbatim>\<open>memcpy\<close> on ranges that
  overlap, which C leaves undefined.
\<close>

datatype fatal =
    FATAL | FatalProcessOutOfMemory | CHECK_failed | dangling_pointer | access_violation
  | overlapping_copy

definition log :: "event \<Rightarrow> world \<Rightarrow> world" where
  "log e w = w\<lparr>trace := trace w @ [e]\<rparr>"

definition size_t :: "config \<Rightarrow> nat \<Rightarrow> nat" where
  "size_t cfg n = n mod 2 ^ size_t_bits (arch cfg)"

definition RecordStatus :: "nat \<Rightarrow> AllocationStatus \<Rightarrow> world \<Rightarrow> world" where
  "RecordStatus isolate status w = log (RecordStatus_ev isolate status) w"

definition reserve :: "config \<Rightarrow> 64 word \<Rightarrow> world \<Rightarrow> bool \<times> world" where
  "reserve cfg num_bytes w =
     (case ReserveAddressSpace (arch cfg) [] num_bytes (reserved_address_space w) of
        (ok, c) \<Rightarrow> (ok, log (ReserveAddressSpace_ev num_bytes ok) (w\<lparr>reserved_address_space := c\<rparr>)))"

definition release :: "64 word \<Rightarrow> world \<Rightarrow> world" where
  "release num_bytes w =
     log (ReleaseReservation_ev num_bytes)
       (w\<lparr>reserved_address_space := ReleaseReservation num_bytes (reserved_address_space w)\<rparr>)"

definition critical_memory_pressure :: "platform \<Rightarrow> nat \<Rightarrow> world \<Rightarrow> world" where
  "critical_memory_pressure env isolate w =
     (let released = MemoryPressureNotification env (trace w) in
      log (MemoryPressureNotification_ev isolate released)
        (w\<lparr>reserved_address_space :=
             foldl (\<lambda>c n. ReleaseReservation n c) (reserved_address_space w) released\<rparr>))"

text \<open>
  Modelled from the spec: the constructor of \<^verbatim>\<open>BackingStore\<close> is in \<^verbatim>\<open>backing-store.h\<close>, which
  is not part of the file. Its seven arguments are the ones the calls in the file pass, in
  their order (start, length, capacity, shared, is_wasm_memory, free_on_destruct,
  has_guard_regions); by the data model of the specification a new object is not yet
  keyed in the registry, and its allocator token or anchor is set by the caller
  afterwards. \<^verbatim>\<open>new\<close> hands out the next address, which is never null.
\<close>

definition BackingStore_new ::
  "nat \<Rightarrow> nat \<Rightarrow> nat \<Rightarrow> SharedFlag \<Rightarrow> bool \<Rightarrow> bool \<Rightarrow> bool \<Rightarrow> world \<Rightarrow> nat \<times> world" where
  "BackingStore_new start len capacity shared is_wasm owns guards w =
     (let p = Suc (last_object w) in
      (p, w\<lparr>objects := (objects w)(p :=
              \<lparr> buffer_start = start, byte_length = len, byte_capacity = capacity,
                is_shared = (shared = kShared), is_wasm_memory = is_wasm,
                free_on_destruct = owns, has_guard_regions = guards,
                globally_registered = False, type_specific_data = 0 \<rparr>),
            live := insert p (live w), last_object := p\<rparr>))"

definition SharedWasmMemoryData_new :: "nat \<Rightarrow> nat \<Rightarrow> world \<Rightarrow> nat \<times> world" where
  "SharedWasmMemoryData_new isolate memory_object w =
     (let p = Suc (last_node w) in
      (p, w\<lparr>nodes := fmupd p \<lparr> node_next = 0, node_prev = 0, node_isolate = isolate,
                                node_memory_object = memory_object \<rparr> (nodes w),
            last_node := p\<rparr>))"

subsection \<open>Allocation of Wasm memory\<close>

text \<open>
  The functions are those of one thread: \<^verbatim>\<open>ReserveAddressSpace\<close> meets no interference
  here, and the counter changes only by this thread's calls and by the destructors that
  run in a collection it requests.
\<close>

text \<open>The locals of \<^verbatim>\<open>TryAllocateWasmMemory\<close> that its lambdas capture and assign.\<close>

record frame =
  did_retry :: bool
  allocation_base :: nat

text \<open>\<^verbatim>\<open>gc_retry\<close>: the counter of the \<^verbatim>\<open>for\<close> loop counts down here.\<close>

fun gc_retry_loop ::
  "platform \<Rightarrow> nat \<Rightarrow> (frame \<times> world \<Rightarrow> bool \<times> frame \<times> world) \<Rightarrow> nat \<Rightarrow>
   frame \<times> world \<Rightarrow> bool \<times> frame \<times> world" where
  "gc_retry_loop env isolate fn 0 s = (False, s)"
| "gc_retry_loop env isolate fn (Suc k) s =
     (case fn s of
        (True, s') \<Rightarrow> (True, s')
      | (False, f, w) \<Rightarrow>
          gc_retry_loop env isolate fn k
            (f\<lparr>did_retry := True\<rparr>, critical_memory_pressure env isolate w))"

definition gc_retry ::
  "platform \<Rightarrow> nat \<Rightarrow> (frame \<times> world \<Rightarrow> bool \<times> frame \<times> world) \<Rightarrow>
   frame \<times> world \<Rightarrow> bool \<times> frame \<times> world" where
  "gc_retry env isolate fn s = gc_retry_loop env isolate fn 3 s"

definition compute_reservation_size :: "config \<Rightarrow> nat \<Rightarrow> nat" where
  "compute_reservation_size cfg maximum_pages =
     (if kUseGuardRegions (arch cfg) then size_t cfg (unat kFullGuardSize)
      else size_t cfg (min maximum_pages (kV8MaxWasmMemoryPages cfg) * kWasmPageSize cfg))"

definition compute_byte_capacity :: "config \<Rightarrow> nat \<Rightarrow> nat" where
  "compute_byte_capacity cfg maximum_pages =
     (if kUseGuardRegions (arch cfg)
      then size_t cfg (kV8MaxWasmMemoryPages cfg * kWasmPageSize cfg)
      else compute_reservation_size cfg maximum_pages)"

definition reserve_memory_space ::
  "config \<Rightarrow> nat \<Rightarrow> frame \<times> world \<Rightarrow> bool \<times> frame \<times> world" where
  "reserve_memory_space cfg n = (\<lambda>(f, w).
     case reserve cfg (of_nat n) w of (ok, w') \<Rightarrow> (ok, f, w'))"

definition allocate_pages ::
  "config \<Rightarrow> platform \<Rightarrow> nat \<Rightarrow> frame \<times> world \<Rightarrow> bool \<times> frame \<times> world" where
  "allocate_pages cfg env n = (\<lambda>(f, w).
     let p = AllocatePages env (trace w) n (kWasmPageSize cfg) in
     (p \<noteq> 0, f\<lparr>allocation_base := p\<rparr>, log (AllocatePages_ev n (kWasmPageSize cfg) p) w))"

definition commit_memory ::
  "platform \<Rightarrow> nat \<Rightarrow> nat \<Rightarrow> frame \<times> world \<Rightarrow> bool \<times> frame \<times> world" where
  "commit_memory env start len = (\<lambda>(f, w).
     if len = 0 then (True, f, w)
     else let ok = SetPermissions env (trace w) start len in
          (ok, f, log (SetPermissions_ev start len ok) w))"

definition TryAllocateWasmMemory ::
  "config \<Rightarrow> platform \<Rightarrow> nat \<Rightarrow> nat \<Rightarrow> nat \<Rightarrow> SharedFlag \<Rightarrow> world \<Rightarrow> fatal + nat \<times> world" where
  "TryAllocateWasmMemory cfg env isolate initial_pages maximum_pages shared w =
     (let guards = kUseGuardRegions (arch cfg);
          n = compute_reservation_size cfg maximum_pages;
          capacity = compute_byte_capacity cfg maximum_pages
      in case gc_retry env isolate (reserve_memory_space cfg n)
                (\<lparr>did_retry = False, allocation_base = 0\<rparr>, w) of
        (False, f1, w1) \<Rightarrow>
          if FLAG_correctness_fuzzer_suppressions cfg then Inl FATAL
          else Inr (0, RecordStatus isolate kAddressSpaceLimitReachedFailure w1)
      | (True, f1, w1) \<Rightarrow>
          (case gc_retry env isolate (allocate_pages cfg env n) (f1, w1) of
            (False, f2, w2) \<Rightarrow>
              Inr (0, RecordStatus isolate kOtherFailure (release (of_nat n) w2))
          | (True, f2, w2) \<Rightarrow>
              (let start =
                     allocation_base f2 + (if guards then unat kNegativeGuardSize else 0);
                   len = size_t cfg (initial_pages * kWasmPageSize cfg)
               in case gc_retry env isolate (commit_memory env start len) (f2, w2) of
                 (False, f3, w3) \<Rightarrow> Inl FatalProcessOutOfMemory
               | (True, f3, w3) \<Rightarrow>
                   (let w4 = RecordStatus isolate
                               (if did_retry f3 then kSuccessAfterRetry else kSuccess) w3
                    in case BackingStore_new start len capacity shared True True guards w4 of
                      (result, w5) \<Rightarrow>
                        if shared = kShared then
                          (case SharedWasmMemoryData_new 0 0 w5 of
                            (anchor, w6) \<Rightarrow>
                              Inr (result, w6\<lparr>objects := (objects w6)(result :=
                                     (objects w6 result)\<lparr>type_specific_data := anchor\<rparr>)\<rparr>))
                        else Inr (result, w5)))))"

definition AllocateWasmMemory ::
  "config \<Rightarrow> platform \<Rightarrow> nat \<Rightarrow> nat \<Rightarrow> nat \<Rightarrow> SharedFlag \<Rightarrow> world \<Rightarrow> fatal + nat \<times> world" where
  "AllocateWasmMemory cfg env isolate initial_pages maximum_pages shared w =
     (if initial_pages > kV8MaxWasmMemoryPages cfg then Inr (0, w)
      else case TryAllocateWasmMemory cfg env isolate initial_pages maximum_pages shared w of
        Inl e \<Rightarrow> Inl e
      | Inr (backing_store, w1) \<Rightarrow>
          if backing_store = 0 \<and> maximum_pages > initial_pages
          then TryAllocateWasmMemory cfg env isolate initial_pages initial_pages shared w1
          else Inr (backing_store, w1))"

subsection \<open>Growing in place\<close>

definition GrowWasmMemoryInPlace ::
  "platform \<Rightarrow> nat \<Rightarrow> nat \<Rightarrow> nat \<Rightarrow> world \<Rightarrow> bool \<times> world" where
  "GrowWasmMemoryInPlace env isolate this new_byte_length w =
     (let bs = objects w this in
      if new_byte_length \<le> byte_length bs then (True, w)
      else if byte_capacity bs < new_byte_length then (False, w)
      else let ok = SetPermissions env (trace w) (buffer_start bs) new_byte_length;
               w1 = log (SetPermissions_ev (buffer_start bs) new_byte_length ok) w
           in if \<not> ok then (False, w1)
              else (True,
                (log (AdjustAmountOfExternalAllocatedMemory_ev isolate
                        (new_byte_length - byte_length bs)) w1)
                \<lparr>objects := (objects w1)(this := bs\<lparr>byte_length := new_byte_length\<rparr>)\<rparr>))"

subsection \<open>The global registry\<close>

definition Register :: "nat \<Rightarrow> world \<Rightarrow> fatal + world" where
  "Register backing_store w =
     (if backing_store = 0 then Inr w
      else let bs = objects w backing_store in
        if globally_registered bs then Inr w
        else case registry_map w (buffer_start bs) of
          Some other \<Rightarrow> Inl CHECK_failed
        | None \<Rightarrow>
            Inr (w\<lparr>registry_map := (registry_map w)(buffer_start bs \<mapsto> backing_store),
                   objects := (objects w)(backing_store := bs\<lparr>globally_registered := True\<rparr>)\<rparr>))"

definition Unregister :: "nat \<Rightarrow> world \<Rightarrow> world" where
  "Unregister backing_store w =
     (let bs = objects w backing_store in
      if \<not> globally_registered bs then w
      else w\<lparr>registry_map := (registry_map w)(buffer_start bs := None),
             objects := (objects w)(backing_store := bs\<lparr>globally_registered := False\<rparr>)\<rparr>)"

definition Lookup :: "nat \<Rightarrow> nat \<Rightarrow> world \<Rightarrow> nat" where
  "Lookup start len w =
     (case registry_map w start of
        None \<Rightarrow> 0
      | Some p \<Rightarrow> if p \<in> live w then p else 0)"

text \<open>The flag of every object agrees with the map of the registry.\<close>

definition registry_consistent :: "world \<Rightarrow> bool" where
  "registry_consistent w \<longleftrightarrow>
     (\<forall>p. globally_registered (objects w p) \<longrightarrow>
          registry_map w (buffer_start (objects w p)) = Some p)"

subsection \<open>Destruction\<close>


definition get_shared_wasm_memory_data :: "BackingStore \<Rightarrow> fatal + nat" where
  "get_shared_wasm_memory_data bs =
     (if \<not> (is_wasm_memory bs \<and> is_shared bs) then Inl CHECK_failed
      else if type_specific_data bs = 0 then Inl CHECK_failed
      else Inr (type_specific_data bs))"





subsection \<open>Copying\<close>

text \<open>
  Modelled from the spec: the page allocator is not part of the file, and what its
  permissions do is taken from the specification, by which the pages are reserved "with
  no access permissions", the commit grants "read/write permission", and a guard region
  is "inaccessible virtual memory used to turn small out-of-bounds accesses into a
  hardware fault".

  The file asks the page allocator for pages that cannot be accessed
  (\<^verbatim>\<open>PageAllocator::kNoAccess\<close>, "inaccessible by default"), makes ranges of them readable
  and writable (\<^verbatim>\<open>PageAllocator::kReadWrite\<close>) and gives regions back; it uses no other
  permission, and each of these calls is in the trace with its answer. \<open>protect\<close> is the
  effect of one call on the addresses that can be read and written: those of a region
  that \<^verbatim>\<open>AllocatePages\<close> has handed out or that \<^verbatim>\<open>FreePages\<close> has taken back cannot,
  those of a range for which \<^verbatim>\<open>SetPermissions\<close> has answered true can. The trace begins
  with the process; an address that no call in it has made readable and writable is not
  memory of a Wasm backing store, and an access to it counts as a fault.
\<close>

fun protect :: "(nat \<Rightarrow> bool) \<Rightarrow> event \<Rightarrow> nat \<Rightarrow> bool" where
  "protect rw (AllocatePages_ev n alignment p) a =
     (if p \<noteq> 0 \<and> p \<le> a \<and> a < p + n then False else rw a)"
| "protect rw (SetPermissions_ev start n ok) a =
     (if ok \<and> start \<le> a \<and> a < start + n then True else rw a)"
| "protect rw (FreePages_ev start n ok) a =
     (if ok \<and> start \<le> a \<and> a < start + n then False else rw a)"
| "protect rw e a = rw a"





subsection \<open>Broadcasting growth of a shared memory\<close>

text \<open>
  The first loop of \<^verbatim>\<open>BroadcastSharedWasmMemoryGrow\<close>. It follows the \<^verbatim>\<open>next_\<close> pointers
  and ends at a null pointer; on a list that runs into a cycle it does not end, and the
  value is \<open>None\<close>.
\<close>

partial_function (option) gather ::
  "nat \<Rightarrow> nat \<Rightarrow> nat list \<times> world \<Rightarrow> (fatal + nat list \<times> world) option" where
  "gather isolate list s =
     (if list = 0 then Some (Inr s)
      else case fmlookup (nodes (snd s)) list of
        None \<Rightarrow> Some (Inl dangling_pointer)
      | Some entry \<Rightarrow>
          if node_isolate entry = isolate \<and> node_memory_object entry \<noteq> 0
          then gather isolate (node_next entry) (fst s @ [node_memory_object entry], snd s)
          else gather isolate (node_next entry)
                 (fst s, log (RequestGrowSharedMemory_ev (node_isolate entry)) (snd s)))"

text \<open>
  Modelled from the spec: \<^verbatim>\<open>JSArrayBuffer::Attach\<close> is not part of the file. By the
  specification the second phase of the broadcast "constructs a fresh buffer-view object
  over the (already-grown) region": the fresh buffer is a buffer on the backing store and
  has the length the backing store has when it is attached.
\<close>

definition Attach :: "nat \<Rightarrow> world \<Rightarrow> JSArrayBuffer" where
  "Attach backing_store w =
     \<lparr> ab_backing_store = backing_store, ab_byte_length = byte_length (objects w backing_store) \<rparr>"

text \<open>
  Modelled from the spec: \<^verbatim>\<open>WasmMemoryObject::update_instances\<close> is not part of the file.
  By the specification the second phase "replaces all of that view's underlying
  instances": the new buffer becomes the array buffer of the memory object.
\<close>

definition update_instances :: "nat \<Rightarrow> JSArrayBuffer \<Rightarrow> world \<Rightarrow> world" where
  "update_instances memory_object new_buffer w =
     w\<lparr>array_buffer := (array_buffer w)(memory_object \<mapsto> new_buffer)\<rparr>"

text \<open>The body of the second loop of \<^verbatim>\<open>BroadcastSharedWasmMemoryGrow\<close>.\<close>

definition update_memory_object :: "nat \<Rightarrow> nat \<Rightarrow> world \<Rightarrow> nat \<Rightarrow> world" where
  "update_memory_object isolate backing_store w memory_object =
     (let w1 = log (NewJSSharedArrayBuffer_ev isolate) w
      in update_instances memory_object (Attach backing_store w1) w1)"

definition BroadcastSharedWasmMemoryGrow ::
  "nat \<Rightarrow> nat \<Rightarrow> nat \<Rightarrow> world \<Rightarrow> (fatal + world) option" where
  "BroadcastSharedWasmMemoryGrow isolate backing_store new_size w =
     (case get_shared_wasm_memory_data (objects w backing_store) of
        Inl e \<Rightarrow> Some (Inl e)
      | Inr anchor \<Rightarrow>
          (case fmlookup (nodes w) anchor of
             None \<Rightarrow> Some (Inl dangling_pointer)
           | Some head \<Rightarrow>
               (case gather isolate (node_next head) ([], w) of
                  None \<Rightarrow> None
                | Some (Inl e) \<Rightarrow> Some (Inl e)
                | Some (Inr (memory_objects, w1)) \<Rightarrow>
                    Some (Inr (foldl (update_memory_object isolate backing_store) w1
                                 memory_objects)))))"

text \<open>The addresses of the nodes that the \<^verbatim>\<open>next_\<close> pointers lead through, up to null.\<close>

fun chain :: "(nat, SharedWasmMemoryData) fmap \<Rightarrow> nat \<Rightarrow> nat list \<Rightarrow> bool" where
  "chain ns p [] = (p = 0)"
| "chain ns p (a # as) =
     (p = a \<and> a \<noteq> 0 \<and>
      (case fmlookup ns a of None \<Rightarrow> False | Some entry \<Rightarrow> chain ns (node_next entry) as))"

subsection \<open>Accounting over a trace\<close>

text \<open>The bytes that the collections recorded in a trace have released.\<close>

fun released :: "event list \<Rightarrow> 64 word" where
  "released [] = 0"
| "released (MemoryPressureNotification_ev isolate rs # es) = sum_list rs + released es"
| "released (e # es) = released es"

text \<open>
  \<open>advances d w w'\<close>: from \<open>w\<close> to \<open>w'\<close> the trace has grown, the counter has gone up by
  \<open>d\<close> and down by what the collections in the new part of the trace released, and nothing
  else has changed.
\<close>

definition advances :: "64 word \<Rightarrow> world \<Rightarrow> world \<Rightarrow> bool" where
  "advances d w w' \<longleftrightarrow>
     (\<exists>evs. w' = w\<lparr>reserved_address_space := reserved_address_space w - released evs + d,
                    trace := trace w @ evs\<rparr>)"


subsection \<open>Sample configurations, environments and states\<close>

text \<open>
  Two sample builds: 65536 pages of 65536 bytes on a 64 bit target, 32767 pages of 65536
  bytes on a 32 bit target.
\<close>

definition x64 :: config where
  "x64 = \<lparr> arch = V8_TARGET_ARCH_64_BIT, kV8MaxWasmMemoryPages = 65536,
           kWasmPageSize = 65536, FLAG_correctness_fuzzer_suppressions = False \<rparr>"

definition ia32 :: config where
  "ia32 = \<lparr> arch = V8_TARGET_ARCH_32_BIT, kV8MaxWasmMemoryPages = 32767,
            kWasmPageSize = 65536, FLAG_correctness_fuzzer_suppressions = False \<rparr>"

text \<open>
  A platform that grants every request (pages at the address given) and whose collections
  release nothing, and one that refuses every request and whose collections release the
  amount given each time.
\<close>

definition granting :: "nat \<Rightarrow> platform" where
  "granting base =
     \<lparr> AllocatePages = (\<lambda>history n alignment. base),
       FreePages = (\<lambda>history start n. True),
       SetPermissions = (\<lambda>history start n. True),
       MemoryPressureNotification = (\<lambda>history. []) \<rparr>"

definition refusing :: "64 word \<Rightarrow> platform" where
  "refusing r =
     \<lparr> AllocatePages = (\<lambda>history n alignment. 0),
       FreePages = (\<lambda>history start n. False),
       SetPermissions = (\<lambda>history start n. False),
       MemoryPressureNotification = (\<lambda>history. [r]) \<rparr>"


text \<open>The state of a process with the given count of reserved bytes and no object.\<close>

definition no_store :: BackingStore where
  "no_store = \<lparr> buffer_start = 0, byte_length = 0, byte_capacity = 0, is_shared = False,
                 is_wasm_memory = False, free_on_destruct = False, has_guard_regions = False,
                 globally_registered = False, type_specific_data = 0 \<rparr>"

definition empty_world :: "64 word \<Rightarrow> world" where
  "empty_world c =
     \<lparr> reserved_address_space = c, registry_map = Map.empty, objects = (\<lambda>p. no_store),
       live = {}, last_object = 0, nodes = fmempty, last_node = 0,
       array_buffer = Map.empty, memory = (\<lambda>a. 0), trace = [] \<rparr>"

text \<open>The pointer a call returns together with the object it points to.\<close>

definition store_of :: "fatal + nat \<times> world \<Rightarrow> (nat \<times> BackingStore) option" where
  "store_of r = (case r of Inl e \<Rightarrow> None | Inr (p, w) \<Rightarrow> Some (p, objects w p))"

text \<open>A Wasm memory as \<^verbatim>\<open>TryAllocateWasmMemory\<close> makes them, and the state that holds it.\<close>

definition wasm_store :: "nat \<Rightarrow> nat \<Rightarrow> nat \<Rightarrow> bool \<Rightarrow> BackingStore" where
  "wasm_store start len capacity guards =
     \<lparr> buffer_start = start, byte_length = len, byte_capacity = capacity, is_shared = False,
       is_wasm_memory = True, free_on_destruct = True, has_guard_regions = guards,
       globally_registered = False, type_specific_data = 0 \<rparr>"

definition world_with :: "nat \<Rightarrow> BackingStore \<Rightarrow> world" where
  "world_with p bs =
     (empty_world 0)\<lparr>objects := (\<lambda>q. no_store)(p := bs), live := {p}, last_object := p\<rparr>"

text \<open>
  A backing store as \<^verbatim>\<open>WrapAllocation\<close> makes them for memory of the embedder, with the
  array buffer allocator at the address \<open>9\<close>, and a process in which the same 16 bytes at
  the address 4096 have been wrapped twice: the backing stores at the object addresses \<open>5\<close>
  and \<open>6\<close>, both alive and neither registered.
\<close>

definition wrapped_store :: "nat \<Rightarrow> nat \<Rightarrow> BackingStore" where
  "wrapped_store start len =
     \<lparr> buffer_start = start, byte_length = len, byte_capacity = len, is_shared = False,
       is_wasm_memory = False, free_on_destruct = False, has_guard_regions = False,
       globally_registered = False, type_specific_data = 9 \<rparr>"

definition twice_wrapped :: world where
  "twice_wrapped =
     (empty_world 0)
       \<lparr>objects := (\<lambda>q. no_store)(5 := wrapped_store 4096 16, 6 := wrapped_store 4096 16),
        live := {5, 6}, last_object := 6\<rparr>"

text \<open>
  The nodes at the given addresses, and the test by which the first loop of the broadcast
  takes a node's memory object for an update.
\<close>

definition attached :: "(nat, SharedWasmMemoryData) fmap \<Rightarrow> nat list \<Rightarrow> SharedWasmMemoryData list" where
  "attached ns as = List.map_filter (fmlookup ns) as"

definition updated_by :: "nat \<Rightarrow> SharedWasmMemoryData \<Rightarrow> bool" where
  "updated_by isolate entry \<longleftrightarrow> node_isolate entry = isolate \<and> node_memory_object entry \<noteq> 0"

text \<open>
  A shared Wasm memory at the object address \<open>5\<close> that has grown from one page to two, its
  anchor at the node address \<open>11\<close>, and two attached memory objects whose array buffers
  still have the length of one page: the handle \<open>100\<close> of the isolate \<open>7\<close> and the handle
  \<open>200\<close> of the isolate \<open>8\<close>.
\<close>

definition shared_world :: world where
  "shared_world =
     (world_with 5 ((wasm_store 4096 131072 131072 False)
                      \<lparr>is_shared := True, type_specific_data := 11\<rparr>))
       \<lparr>nodes :=
          fmupd 11 \<lparr> node_next = 12, node_prev = 0, node_isolate = 0, node_memory_object = 0 \<rparr>
         (fmupd 12 \<lparr> node_next = 13, node_prev = 11, node_isolate = 7, node_memory_object = 100 \<rparr>
         (fmupd 13 \<lparr> node_next = 0, node_prev = 12, node_isolate = 8, node_memory_object = 200 \<rparr>
          fmempty)),
        last_node := 13,
        array_buffer := [100 \<mapsto> \<lparr> ab_backing_store = 5, ab_byte_length = 65536 \<rparr>,
                         200 \<mapsto> \<lparr> ab_backing_store = 5, ab_byte_length = 65536 \<rparr>]\<rparr>"



section \<open>Properties\<close>

subsection \<open>Address space accounting and guard regions\<close>

lemma ReserveAddressSpace_Spurious:
  "ReserveAddressSpace a (replicate k Spurious) n c = ReserveAddressSpace a [] n c"
  by (induction k) auto

lemma ReserveAddressSpace_fits:
  assumes "unat c + unat n \<le> unat (kAddressSpaceLimit a)"
  shows "ReserveAddressSpace a [] n c = (True, c + n)" and "unat (c + n) = unat c + unat n"
proof -
  have le: "c \<le> kAddressSpaceLimit a"
    using assms by (simp add: word_le_nat_alt)
  then have "unat (kAddressSpaceLimit a - c) = unat (kAddressSpaceLimit a) - unat c"
    by (simp add: unat_sub)
  then have "\<not> kAddressSpaceLimit a - c < n"
    using assms by (simp add: word_less_nat_alt)
  then show "ReserveAddressSpace a [] n c = (True, c + n)"
    using le by (simp add: not_less)
  have "unat (kAddressSpaceLimit a) < 2 ^ 64"
    using unsigned_less [of "kAddressSpaceLimit a", where 'a = nat] by simp
  then have "unat c + unat n < 2 ^ 64"
    using assms by linarith
  then show "unat (c + n) = unat c + unat n"
    by (simp add: unat_add_lem [THEN iffD1])
qed

lemma ReserveAddressSpace_exceeds:
  assumes "unat (kAddressSpaceLimit a) < unat c + unat n"
  shows "ReserveAddressSpace a [] n c = (False, c)"
proof (cases "c \<le> kAddressSpaceLimit a")
  case True
  then have "unat (kAddressSpaceLimit a - c) = unat (kAddressSpaceLimit a) - unat c"
    by (simp add: unat_sub)
  then have "kAddressSpaceLimit a - c < n"
    using assms True by (simp add: word_less_nat_alt word_le_nat_alt)
  then show ?thesis by simp
next
  case False
  then show ?thesis by (simp add: not_le)
qed

lemma ReserveAddressSpace_within:
  assumes "c \<le> kAddressSpaceLimit a"
  shows "snd (ReserveAddressSpace a [] n c) \<le> kAddressSpaceLimit a"
proof (cases "unat c + unat n \<le> unat (kAddressSpaceLimit a)")
  case True
  from ReserveAddressSpace_fits [OF True] show ?thesis
    by (simp add: word_le_nat_alt True)
next
  case False
  with ReserveAddressSpace_exceeds [of a c n] assms show ?thesis by simp
qed

lemma ReleaseReservation_within:
  assumes "n \<le> c" and "c \<le> kAddressSpaceLimit a"
  shows "ReleaseReservation n c \<le> kAddressSpaceLimit a"
proof -
  have "unat (c - n) = unat c - unat n"
    using assms(1) by (simp add: unat_sub)
  then have "c - n \<le> c"
    by (simp add: word_le_nat_alt)
  with assms(2) show ?thesis
    by (simp add: ReleaseReservation_def)
qed

text \<open>
  Claim C4. Whenever the count \<open>c\<close> and the request \<open>n\<close> together stay within the
  ceiling, \<^verbatim>\<open>ReserveAddressSpace\<close> succeeds, however often the exchange fails spuriously
  first, and the count becomes exactly \<open>c + n\<close> with no wrap-around; \<^verbatim>\<open>ReleaseReservation\<close>
  of \<open>n\<close> then gives \<open>c\<close> back. Whenever \<open>c + n\<close> is above the ceiling the call returns
  false and leaves the count as it was. A count within the ceiling stays within it under
  both functions (for a release of no more than is reserved).
\<close>

theorem Reserve_Release_roundtrip:
  "(unat c + unat n \<le> unat (kAddressSpaceLimit a) \<longrightarrow>
      ReserveAddressSpace a (replicate k Spurious) n c = (True, c + n) \<and>
      unat (c + n) = unat c + unat n \<and>
      ReleaseReservation n (snd (ReserveAddressSpace a (replicate k Spurious) n c)) = c) \<and>
   (unat (kAddressSpaceLimit a) < unat c + unat n \<longrightarrow>
      ReserveAddressSpace a (replicate k Spurious) n c = (False, c)) \<and>
   (c \<le> kAddressSpaceLimit a \<longrightarrow>
      snd (ReserveAddressSpace a (replicate k Spurious) n c) \<le> kAddressSpaceLimit a \<and>
      (n \<le> c \<longrightarrow> ReleaseReservation n c \<le> kAddressSpaceLimit a))"
proof (intro conjI impI)
  assume fits: "unat c + unat n \<le> unat (kAddressSpaceLimit a)"
  from ReserveAddressSpace_fits(1) [OF fits]
  show r: "ReserveAddressSpace a (replicate k Spurious) n c = (True, c + n)"
    by (simp only: ReserveAddressSpace_Spurious)
  from ReserveAddressSpace_fits(2) [OF fits]
  show "unat (c + n) = unat c + unat n" .
  show "ReleaseReservation n (snd (ReserveAddressSpace a (replicate k Spurious) n c)) = c"
    by (simp only: r snd_conv ReleaseReservation_def add_diff_cancel_right')
next
  assume "unat (kAddressSpaceLimit a) < unat c + unat n"
  from ReserveAddressSpace_exceeds [OF this]
  show "ReserveAddressSpace a (replicate k Spurious) n c = (False, c)"
    by (simp only: ReserveAddressSpace_Spurious)
next
  assume "c \<le> kAddressSpaceLimit a"
  from ReserveAddressSpace_within [OF this]
  show "snd (ReserveAddressSpace a (replicate k Spurious) n c) \<le> kAddressSpaceLimit a"
    by (simp only: ReserveAddressSpace_Spurious)
next
  assume "c \<le> kAddressSpaceLimit a" and "n \<le> c"
  then show "ReleaseReservation n c \<le> kAddressSpaceLimit a"
    by (simp add: ReleaseReservation_within)
qed

theorem Reserve_Release_roundtrip_witness:
  "unat (5 :: 64 word) + unat (kFullGuardSize) \<le> unat (kAddressSpaceLimit V8_TARGET_ARCH_64_BIT) \<and>
   ReserveAddressSpace V8_TARGET_ARCH_64_BIT [Spurious, Spurious] kFullGuardSize 5 = (True, 10737418245) \<and>
   ReleaseReservation kFullGuardSize 10737418245 = 5 \<and>
   unat (kAddressSpaceLimit V8_TARGET_ARCH_64_BIT) < unat (0x10000000000 :: 64 word) + unat kFullGuardSize \<and>
   ReserveAddressSpace V8_TARGET_ARCH_64_BIT [Spurious, Spurious] kFullGuardSize 0x10000000000
     = (False, 0x10000000000) \<and>
   (5 :: 64 word) \<le> kAddressSpaceLimit V8_TARGET_ARCH_64_BIT \<and>
   (3 :: 64 word) \<le> 5 \<and>
   ReleaseReservation 3 5 \<le> kAddressSpaceLimit V8_TARGET_ARCH_64_BIT"
proof -
  have h1: "unat (5 :: 64 word) + unat kFullGuardSize \<le> unat (kAddressSpaceLimit V8_TARGET_ARCH_64_BIT)"
    by (simp add: kFullGuardSize_def GB_def)
  have h2: "unat (kAddressSpaceLimit V8_TARGET_ARCH_64_BIT) < unat (0x10000000000 :: 64 word) + unat kFullGuardSize"
    by (simp add: kFullGuardSize_def GB_def)
  have h3: "(5 :: 64 word) \<le> kAddressSpaceLimit V8_TARGET_ARCH_64_BIT"
    by simp
  have h4: "(3 :: 64 word) \<le> 5"
    by simp
  have s: "replicate 2 Spurious = [Spurious, Spurious]"
    by (simp add: numeral_2_eq_2)
  from Reserve_Release_roundtrip [of 5 kFullGuardSize V8_TARGET_ARCH_64_BIT 2] h1
  have a: "ReserveAddressSpace V8_TARGET_ARCH_64_BIT [Spurious, Spurious] kFullGuardSize 5 = (True, 10737418245)"
    "ReleaseReservation kFullGuardSize 10737418245 = 5"
    by (simp_all add: s kFullGuardSize_def GB_def)
  from Reserve_Release_roundtrip [of "0x10000000000" kFullGuardSize V8_TARGET_ARCH_64_BIT 2] h2
  have b: "ReserveAddressSpace V8_TARGET_ARCH_64_BIT [Spurious, Spurious] kFullGuardSize 0x10000000000
     = (False, 0x10000000000)"
    by (simp only: s)
  from Reserve_Release_roundtrip [of 5 3 V8_TARGET_ARCH_64_BIT 0] h3 h4
  have c: "ReleaseReservation 3 5 \<le> kAddressSpaceLimit V8_TARGET_ARCH_64_BIT"
    by blast
  from h1 h2 h3 h4 a b c show ?thesis by blast
qed

text \<open>
  Claim C5. For every start address, so for every page aligned one, and every length, the
  guarded region begins \<open>2\<close> GiB before the start (in the arithmetic of addresses; as a
  number whenever the start is not below \<open>2\<close> GiB), has a size of exactly \<open>10\<close> GiB, and
  is the same for every length.
\<close>

theorem GetGuardedRegion_envelope:
  "region_begin (GetGuardedRegion start len) = start - 2 * GB \<and>
   region_size (GetGuardedRegion start len) = 10 * GB \<and>
   unat (region_size (GetGuardedRegion start len)) = 10 * 2 ^ 30 \<and>
   GetGuardedRegion start len = GetGuardedRegion start len' \<and>
   (2 * 2 ^ 30 \<le> unat start \<longrightarrow>
      unat (region_begin (GetGuardedRegion start len)) + 2 * 2 ^ 30 = unat start)"
proof -
  have "(2 * GB :: 64 word) \<le> start \<Longrightarrow> unat (start - 2 * GB) = unat start - unat (2 * GB :: 64 word)"
    by (rule unat_sub)
  moreover have "unat (2 * GB :: 64 word) = 2 * 2 ^ 30"
    by (simp add: GB_def)
  moreover have "2 * 2 ^ 30 \<le> unat start \<Longrightarrow> (2 * GB :: 64 word) \<le> start"
    by (simp add: word_le_nat_alt GB_def)
  ultimately show ?thesis
    by (simp add: GetGuardedRegion_def kFullGuardSize_def GB_def)
qed

theorem GetGuardedRegion_envelope_witness:
  "2 * 2 ^ 30 \<le> unat (0x100000000 :: 64 word) \<and>
   GetGuardedRegion 0x100000000 65536 = \<lparr> region_begin = 0x80000000, region_size = 0x280000000 \<rparr> \<and>
   unat (region_begin (GetGuardedRegion 0x100000000 65536)) + 2 * 2 ^ 30 = unat (0x100000000 :: 64 word)"
proof -
  have h: "2 * 2 ^ 30 \<le> unat (0x100000000 :: 64 word)"
    by simp
  with GetGuardedRegion_envelope [of "0x100000000" 65536 0]
  have "unat (region_begin (GetGuardedRegion 0x100000000 65536)) + 2 * 2 ^ 30 = unat (0x100000000 :: 64 word)"
    by blast
  moreover have "GetGuardedRegion 0x100000000 65536 = \<lparr> region_begin = 0x80000000, region_size = 0x280000000 \<rparr>"
    by (simp add: GetGuardedRegion_def kFullGuardSize_def GB_def)
  ultimately show ?thesis using h by blast
qed

text \<open>
  Claim C10. With more initial pages than the engine allows, \<^verbatim>\<open>AllocateWasmMemory\<close>
  returns the null pointer and the process is as before: the counter of reserved bytes,
  the trace of calls (no page operation, no recorded status) and every object.
\<close>

theorem AllocateWasmMemory_over_engine_limit:
  "kV8MaxWasmMemoryPages cfg < initial_pages \<Longrightarrow>
     AllocateWasmMemory cfg env isolate initial_pages maximum_pages shared w = Inr (0, w)"
  by (simp add: AllocateWasmMemory_def)

theorem AllocateWasmMemory_over_engine_limit_witness:
  "kV8MaxWasmMemoryPages x64 < 65537 \<and>
   AllocateWasmMemory x64 (granting 4294967296) 1 65537 65537 kNotShared (empty_world 0)
     = Inr (0, empty_world 0)"
proof -
  have h: "kV8MaxWasmMemoryPages x64 < 65537"
    by (simp add: x64_def)
  from AllocateWasmMemory_over_engine_limit [OF h] h show ?thesis
    by blast
qed

subsection \<open>The trace and the counter through \<^verbatim>\<open>TryAllocateWasmMemory\<close>\<close>

lemma released_append: "released (xs @ ys) = released xs + released ys"
  by (induction xs rule: released.induct) simp_all

lemma foldl_ReleaseReservation:
  "foldl (\<lambda>c n. ReleaseReservation n c) c rs = c - sum_list rs"
  by (induction rs arbitrary: c) (simp_all add: ReleaseReservation_def)

lemma critical_memory_pressure_eq:
  "critical_memory_pressure env isolate w =
     w\<lparr>reserved_address_space :=
         reserved_address_space w - sum_list (MemoryPressureNotification env (trace w)),
       trace := trace w @
         [MemoryPressureNotification_ev isolate (MemoryPressureNotification env (trace w))]\<rparr>"
  by (simp add: critical_memory_pressure_def Let_def log_def foldl_ReleaseReservation)


lemma advancesI:
  "w' = w\<lparr>reserved_address_space := reserved_address_space w - released evs + d,
          trace := trace w @ evs\<rparr> \<Longrightarrow> advances d w w'"
  unfolding advances_def by blast

lemma advances_refl: "advances 0 w w"
  by (rule advancesI [where evs = "[]"]) simp

lemma advances_trans:
  assumes "advances d1 w w1" and "advances d2 w1 w2"
  shows "advances (d1 + d2) w w2"
proof -
  from assms(1) obtain e1 where 1:
    "w1 = w\<lparr>reserved_address_space := reserved_address_space w - released e1 + d1,
            trace := trace w @ e1\<rparr>"
    unfolding advances_def by blast
  from assms(2) obtain e2 where 2:
    "w2 = w1\<lparr>reserved_address_space := reserved_address_space w1 - released e2 + d2,
             trace := trace w1 @ e2\<rparr>"
    unfolding advances_def by blast
  show ?thesis
    by (rule advancesI [where evs = "e1 @ e2"]) (simp add: 1 2 released_append)
qed

lemma advances_trans0: "advances 0 w w1 \<Longrightarrow> advances d w1 w2 \<Longrightarrow> advances d w w2"
  using advances_trans [of 0 w w1 d w2] by simp

lemma advances_gc: "advances 0 w (critical_memory_pressure env isolate w)"
  by (rule advancesI [where evs =
        "[MemoryPressureNotification_ev isolate (MemoryPressureNotification env (trace w))]"])
     (simp add: critical_memory_pressure_eq)

lemma advances_log: "released [e] = 0 \<Longrightarrow> advances 0 w (log e w)"
  by (rule advancesI [where evs = "[e]"]) (simp add: log_def)

lemma advances_release: "advances (- n) w (release n w)"
  by (rule advancesI [where evs = "[ReleaseReservation_ev n]"])
     (simp add: release_def log_def ReleaseReservation_def)

lemma advances_fields:
  assumes "advances d w w'"
  shows "objects w' = objects w" and "live w' = live w" and "last_object w' = last_object w"
    and "nodes w' = nodes w" and "last_node w' = last_node w"
    and "array_buffer w' = array_buffer w" and "memory w' = memory w"
    and "registry_map w' = registry_map w"
    and "\<exists>evs. trace w' = trace w @ evs \<and>
           reserved_address_space w' = reserved_address_space w - released evs + d"
  using assms unfolding advances_def by auto

lemma gc_retry_loop_advances:
  assumes fn: "\<And>f w ok f' w'. fn (f, w) = (ok, f', w') \<Longrightarrow> advances (if ok then d else 0) w w'"
  shows "gc_retry_loop env isolate fn k (f, w) = (ok, f', w') \<Longrightarrow>
           advances (if ok then d else 0) w w'"
proof (induction k arbitrary: f w)
  case 0
  then show ?case by (simp add: advances_refl)
next
  case (Suc k)
  obtain b g v where r: "fn (f, w) = (b, g, v)"
    by (cases "fn (f, w)") auto
  show ?case
  proof (cases b)
    case True
    with Suc.prems r have "ok" and "w' = v" by simp_all
    with fn [OF r] True show ?thesis by simp
  next
    case False
    with fn [OF r] have 1: "advances 0 w v" by simp
    have 2: "advances 0 v (critical_memory_pressure env isolate v)"
      by (rule advances_gc)
    from Suc.prems r False
    have "gc_retry_loop env isolate fn k
            (g\<lparr>did_retry := True\<rparr>, critical_memory_pressure env isolate v) = (ok, f', w')"
      by simp
    from Suc.IH [OF this]
    have 3: "advances (if ok then d else 0) (critical_memory_pressure env isolate v) w'" .
    from advances_trans0 [OF advances_trans0 [OF 1 2] 3] show ?thesis .
  qed
qed

lemma gc_retry_loop_advances0:
  assumes fn: "\<And>f w ok f' w'. fn (f, w) = (ok, f', w') \<Longrightarrow> advances 0 w w'"
    and run: "gc_retry_loop env isolate fn k (f, w) = (ok, f', w')"
  shows "advances 0 w w'"
proof -
  have "advances (if ok then 0 else 0) w w'"
  proof (rule gc_retry_loop_advances [where fn = fn and d = 0, OF _ run])
    fix g v b g' v'
    assume "fn (g, v) = (b, g', v')"
    from fn [OF this] show "advances (if b then 0 else 0) v v'" by simp
  qed
  then show ?thesis by simp
qed

lemma snd_ReserveAddressSpace:
  "snd (ReserveAddressSpace a [] m c) = (if fst (ReserveAddressSpace a [] m c) then c + m else c)"
  by simp

lemma reserve_memory_space_eq:
  "reserve_memory_space cfg n (f, w) =
     (let ok = fst (ReserveAddressSpace (arch cfg) [] (of_nat n) (reserved_address_space w))
      in (ok, f, w\<lparr>reserved_address_space :=
                     (if ok then reserved_address_space w + of_nat n
                      else reserved_address_space w),
                   trace := trace w @ [ReserveAddressSpace_ev (of_nat n) ok]\<rparr>))"
proof -
  obtain b c where r:
    "ReserveAddressSpace (arch cfg) [] (of_nat n) (reserved_address_space w) = (b, c)"
    by (cases "ReserveAddressSpace (arch cfg) [] (of_nat n) (reserved_address_space w)") auto
  with snd_ReserveAddressSpace [of "arch cfg" "of_nat n" "reserved_address_space w"]
  have "c = (if b then reserved_address_space w + of_nat n else reserved_address_space w)"
    by simp
  with r show ?thesis
    by (simp add: reserve_memory_space_def reserve_def log_def Let_def
             del: ReserveAddressSpace.simps)
qed

lemma reserve_memory_space_advances:
  assumes "reserve_memory_space cfg n (f, w) = (ok, f', w')"
  shows "advances (if ok then of_nat n else 0) w w'"
  using assms unfolding reserve_memory_space_eq Let_def
  by (intro advancesI [where evs = "[ReserveAddressSpace_ev (of_nat n) ok]"]) auto

lemma allocate_pages_advances:
  assumes "allocate_pages cfg env n (f, w) = (ok, f', w')"
  shows "advances 0 w w'"
  using assms
  by (intro advancesI [where evs = "[AllocatePages_ev n (kWasmPageSize cfg)
              (AllocatePages env (trace w) n (kWasmPageSize cfg))]"])
     (auto simp: allocate_pages_def Let_def log_def)

lemma commit_memory_advances:
  assumes "commit_memory env start len (f, w) = (ok, f', w')"
  shows "advances 0 w w'"
proof (cases "len = 0")
  case True
  with assms show ?thesis
    by (simp add: commit_memory_def advances_refl)
next
  case False
  with assms show ?thesis
    by (intro advancesI [where evs =
          "[SetPermissions_ev start len (SetPermissions env (trace w) start len)]"])
       (auto simp: commit_memory_def Let_def log_def)
qed

lemma gc_retry_reserve:
  "gc_retry env isolate (reserve_memory_space cfg n) (f, w) = (ok, f', w') \<Longrightarrow>
     advances (if ok then of_nat n else 0) w w'"
  unfolding gc_retry_def
  by (rule gc_retry_loop_advances [where fn = "reserve_memory_space cfg n"])
     (rule reserve_memory_space_advances)

lemma gc_retry_allocate:
  "gc_retry env isolate (allocate_pages cfg env n) (f, w) = (ok, f', w') \<Longrightarrow> advances 0 w w'"
  unfolding gc_retry_def
  by (erule gc_retry_loop_advances0 [rotated]) (rule allocate_pages_advances)

lemma gc_retry_commit:
  "gc_retry env isolate (commit_memory env start len) (f, w) = (ok, f', w') \<Longrightarrow>
     advances 0 w w'"
  unfolding gc_retry_def
  by (erule gc_retry_loop_advances0 [rotated]) (rule commit_memory_advances)

lemma TryAllocateWasmMemory_null:
  assumes "TryAllocateWasmMemory cfg env isolate initial_pages maximum_pages shared w = Inr (0, w')"
  shows "advances 0 w w'"
proof -
  let ?n = "compute_reservation_size cfg maximum_pages"
  obtain ok1 f1 w1 where p1:
    "gc_retry env isolate (reserve_memory_space cfg ?n)
       (\<lparr>did_retry = False, allocation_base = 0\<rparr>, w) = (ok1, f1, w1)"
    by (metis prod_cases3)
  note a1 = gc_retry_reserve [OF p1]
  show ?thesis
  proof (cases ok1)
    case False
    with assms p1 have "w' = RecordStatus isolate kAddressSpaceLimitReachedFailure w1"
      by (simp add: TryAllocateWasmMemory_def split: if_splits)
    then have "advances 0 w1 w'"
      by (simp add: RecordStatus_def advances_log)
    with a1 False show ?thesis
      by (simp add: advances_trans0)
  next
    case True
    obtain ok2 f2 w2 where p2:
      "gc_retry env isolate (allocate_pages cfg env ?n) (f1, w1) = (ok2, f2, w2)"
      by (metis prod_cases3)
    note a2 = gc_retry_allocate [OF p2]
    show ?thesis
    proof (cases ok2)
      case False
      with assms p1 p2 True
      have "w' = RecordStatus isolate kOtherFailure (release (of_nat ?n) w2)"
        by (simp add: TryAllocateWasmMemory_def)
      then have "advances (- of_nat ?n) w2 w'"
        using advances_trans [OF advances_release [of "of_nat ?n" w2]
            advances_log [of "RecordStatus_ev isolate kOtherFailure" "release (of_nat ?n) w2"]]
        by (simp add: RecordStatus_def)
      with advances_trans [OF advances_trans [OF a1 a2]] True show ?thesis
        by fastforce
    next
      case ok2: True
      let ?start = "allocation_base f2 +
        (if kUseGuardRegions (arch cfg) then unat kNegativeGuardSize else 0)"
      let ?len = "size_t cfg (initial_pages * kWasmPageSize cfg)"
      obtain ok3 f3 w3 where p3:
        "gc_retry env isolate (commit_memory env ?start ?len) (f2, w2) = (ok3, f3, w3)"
        by (metis prod_cases3)
      from assms p1 p2 p3 True ok2 have False
        by (cases ok3) (simp_all add: TryAllocateWasmMemory_def Let_def BackingStore_new_def
            SharedWasmMemoryData_new_def split: if_splits)
      then show ?thesis ..
    qed
  qed
qed

lemma TryAllocateWasmMemory_some:
  assumes run: "TryAllocateWasmMemory cfg env isolate initial_pages maximum_pages shared w
                  = Inr (p, w')"
    and p: "p \<noteq> 0"
  shows "p = Suc (last_object w)"
    and "\<exists>start. objects w' = (objects w)(p :=
           \<lparr> buffer_start = start,
             byte_length = size_t cfg (initial_pages * kWasmPageSize cfg),
             byte_capacity = compute_byte_capacity cfg maximum_pages,
             is_shared = (shared = kShared), is_wasm_memory = True, free_on_destruct = True,
             has_guard_regions = kUseGuardRegions (arch cfg), globally_registered = False,
             type_specific_data = (if shared = kShared then Suc (last_node w) else 0) \<rparr>)"
    and "live w' = insert p (live w)"
    and "last_object w' = p"
    and "memory w' = memory w"
    and "registry_map w' = registry_map w"
    and "array_buffer w' = array_buffer w"
    and "\<exists>evs. trace w' = trace w @ evs \<and>
           reserved_address_space w' = reserved_address_space w - released evs
             + of_nat (compute_reservation_size cfg maximum_pages)"
    and "nodes w' = (if shared = kShared
           then fmupd (Suc (last_node w))
                  \<lparr> node_next = 0, node_prev = 0, node_isolate = 0, node_memory_object = 0 \<rparr>
                  (nodes w)
           else nodes w)"
proof -
  let ?n = "compute_reservation_size cfg maximum_pages"
  obtain ok1 f1 w1 where p1:
    "gc_retry env isolate (reserve_memory_space cfg ?n)
       (\<lparr>did_retry = False, allocation_base = 0\<rparr>, w) = (ok1, f1, w1)"
    by (metis prod_cases3)
  obtain ok2 f2 w2 where p2:
    "gc_retry env isolate (allocate_pages cfg env ?n) (f1, w1) = (ok2, f2, w2)"
    by (metis prod_cases3)
  let ?start = "allocation_base f2 +
    (if kUseGuardRegions (arch cfg) then unat kNegativeGuardSize else 0)"
  let ?len = "size_t cfg (initial_pages * kWasmPageSize cfg)"
  obtain ok3 f3 w3 where p3:
    "gc_retry env isolate (commit_memory env ?start ?len) (f2, w2) = (ok3, f3, w3)"
    by (metis prod_cases3)
  have ok1: ok1
    using run p p1 by (cases ok1) (simp_all add: TryAllocateWasmMemory_def split: if_splits)
  have ok2: ok2
    using run p p1 p2 ok1 by (cases ok2) (simp_all add: TryAllocateWasmMemory_def)
  have ok3: ok3
    using run p p1 p2 p3 ok1 ok2
    by (cases ok3) (simp_all add: TryAllocateWasmMemory_def Let_def)
  have a: "advances (of_nat ?n) w w3"
    using advances_trans [OF advances_trans [OF gc_retry_reserve [OF p1]
          gc_retry_allocate [OF p2]] gc_retry_commit [OF p3]] ok1
    by simp
  note fields = advances_fields [OF a]
  define st where "st = (if did_retry f3 then kSuccessAfterRetry else kSuccess)"
  have res: "(p, w') =
    (case BackingStore_new ?start ?len (compute_byte_capacity cfg maximum_pages) shared True True
            (kUseGuardRegions (arch cfg)) (RecordStatus isolate st w3) of
       (result, w5) \<Rightarrow>
         if shared = kShared then
           (case SharedWasmMemoryData_new 0 0 w5 of
              (anchor, w6) \<Rightarrow>
                (result, w6\<lparr>objects := (objects w6)(result :=
                                     (objects w6 result)\<lparr>type_specific_data := anchor\<rparr>)\<rparr>))
         else (result, w5))"
    using run p1 p2 p3 ok1 ok2 ok3
    by (simp add: TryAllocateWasmMemory_def Let_def st_def split: prod.splits if_splits)
  note unfold = BackingStore_new_def SharedWasmMemoryData_new_def RecordStatus_def log_def Let_def
  from fields(9) obtain evs where evs: "trace w3 = trace w @ evs"
    "reserved_address_space w3 = reserved_address_space w - released evs + of_nat ?n"
    by blast
  show "p = Suc (last_object w)"
    using res fields by (simp add: unfold split: if_splits)
  show "live w' = insert p (live w)"
    using res fields by (simp add: unfold split: if_splits)
  show "last_object w' = p"
    using res fields by (simp add: unfold split: if_splits)
  show "memory w' = memory w"
    using res fields by (simp add: unfold split: if_splits)
  show "registry_map w' = registry_map w"
    using res fields by (simp add: unfold split: if_splits)
  show "array_buffer w' = array_buffer w"
    using res fields by (simp add: unfold split: if_splits)
  show "nodes w' = (if shared = kShared
           then fmupd (Suc (last_node w))
                  \<lparr> node_next = 0, node_prev = 0, node_isolate = 0, node_memory_object = 0 \<rparr>
                  (nodes w)
           else nodes w)"
    using res fields by (simp add: unfold split: if_splits)
  show "\<exists>start. objects w' = (objects w)(p :=
           \<lparr> buffer_start = start,
             byte_length = size_t cfg (initial_pages * kWasmPageSize cfg),
             byte_capacity = compute_byte_capacity cfg maximum_pages,
             is_shared = (shared = kShared), is_wasm_memory = True, free_on_destruct = True,
             has_guard_regions = kUseGuardRegions (arch cfg), globally_registered = False,
             type_specific_data = (if shared = kShared then Suc (last_node w) else 0) \<rparr>)"
    using res fields
    by (intro exI [where x = ?start]) (simp add: unfold split: if_splits)
  have "trace w' = trace w @ evs @ [RecordStatus_ev isolate st]"
    using res evs by (simp add: unfold split: if_splits)
  moreover have "reserved_address_space w' = reserved_address_space w3"
    using res by (simp add: unfold split: if_splits)
  ultimately show "\<exists>evs. trace w' = trace w @ evs \<and>
           reserved_address_space w' = reserved_address_space w - released evs + of_nat ?n"
    using evs
    by (intro exI [where x = "evs @ [RecordStatus_ev isolate st]"]) (simp add: released_append)
qed

lemma AllocateWasmMemory_null:
  assumes "AllocateWasmMemory cfg env isolate initial_pages maximum_pages shared w = Inr (0, w')"
  shows "advances 0 w w'"
proof (cases "kV8MaxWasmMemoryPages cfg < initial_pages")
  case True
  with assms show ?thesis
    by (simp add: AllocateWasmMemory_def advances_refl)
next
  case False
  show ?thesis
  proof (cases "TryAllocateWasmMemory cfg env isolate initial_pages maximum_pages shared w")
    case (Inl e)
    with assms False show ?thesis
      by (simp add: AllocateWasmMemory_def)
  next
    case (Inr r)
    obtain q w1 where r: "r = (q, w1)"
      by (cases r) auto
    show ?thesis
    proof (cases "q = 0 \<and> initial_pages < maximum_pages")
      case True
      with assms False Inr r
      have 2: "TryAllocateWasmMemory cfg env isolate initial_pages initial_pages shared w1
                 = Inr (0, w')"
        by (simp add: AllocateWasmMemory_def)
      from True Inr r
      have 1: "TryAllocateWasmMemory cfg env isolate initial_pages maximum_pages shared w
                 = Inr (0, w1)"
        by simp
      from advances_trans0 [OF TryAllocateWasmMemory_null [OF 1] TryAllocateWasmMemory_null [OF 2]]
      show ?thesis .
    next
      case no: False
      with assms False Inr r have "q = 0" and "w1 = w'"
        by (auto simp add: AllocateWasmMemory_def split: if_splits)
      with Inr r show ?thesis
        by (simp add: TryAllocateWasmMemory_null)
    qed
  qed
qed

lemma AllocateWasmMemory_some:
  assumes run: "AllocateWasmMemory cfg env isolate initial_pages maximum_pages shared w
                  = Inr (p, w')"
    and p: "p \<noteq> 0"
  shows "initial_pages \<le> kV8MaxWasmMemoryPages cfg \<and>
         (\<exists>m v. (m = maximum_pages \<or> m = initial_pages \<and> initial_pages < maximum_pages) \<and>
                 advances 0 w v \<and>
                 TryAllocateWasmMemory cfg env isolate initial_pages m shared v = Inr (p, w'))"
proof (cases "kV8MaxWasmMemoryPages cfg < initial_pages")
  case True
  with run p show ?thesis
    by (simp add: AllocateWasmMemory_def)
next
  case False
  show ?thesis
  proof (cases "TryAllocateWasmMemory cfg env isolate initial_pages maximum_pages shared w")
    case (Inl e)
    with run False show ?thesis
      by (simp add: AllocateWasmMemory_def)
  next
    case (Inr r)
    obtain q w1 where r: "r = (q, w1)"
      by (cases r) auto
    show ?thesis
    proof (cases "q = 0 \<and> initial_pages < maximum_pages")
      case True
      with run False Inr r
      have 2: "TryAllocateWasmMemory cfg env isolate initial_pages initial_pages shared w1
                 = Inr (p, w')"
        by (simp add: AllocateWasmMemory_def)
      from True Inr r
      have "TryAllocateWasmMemory cfg env isolate initial_pages maximum_pages shared w
                 = Inr (0, w1)"
        by simp
      from TryAllocateWasmMemory_null [OF this] 2 True False show ?thesis
        by auto
    next
      case no: False
      with run False Inr r have "q = p" and "w1 = w'"
        by (auto simp add: AllocateWasmMemory_def split: if_splits)
      with Inr r False advances_refl [of w] show ?thesis
        by auto
    qed
  qed
qed

lemma TryAllocateWasmMemory_granting:
  assumes "base \<noteq> 0" and "\<not> kAddressSpaceLimit (arch cfg) < c"
    and "\<not> kAddressSpaceLimit (arch cfg) - c < of_nat (compute_reservation_size cfg maximum_pages)"
  shows "TryAllocateWasmMemory cfg (granting base) isolate initial_pages maximum_pages kNotShared
           (empty_world c) =
         Inr (Suc 0, (empty_world c)
           \<lparr>reserved_address_space := c + of_nat (compute_reservation_size cfg maximum_pages),
            objects := (\<lambda>q. no_store)(Suc 0 :=
              wasm_store
                (base + (if kUseGuardRegions (arch cfg) then unat kNegativeGuardSize else 0))
                (size_t cfg (initial_pages * kWasmPageSize cfg))
                (compute_byte_capacity cfg maximum_pages)
                (kUseGuardRegions (arch cfg))),
            live := {Suc 0}, last_object := Suc 0,
            trace :=
              [ReserveAddressSpace_ev (of_nat (compute_reservation_size cfg maximum_pages)) True,
               AllocatePages_ev (compute_reservation_size cfg maximum_pages) (kWasmPageSize cfg)
                 base] @
              (if size_t cfg (initial_pages * kWasmPageSize cfg) = 0 then []
               else [SetPermissions_ev
                 (base + (if kUseGuardRegions (arch cfg) then unat kNegativeGuardSize else 0))
                 (size_t cfg (initial_pages * kWasmPageSize cfg)) True]) @
              [RecordStatus_ev isolate kSuccess]\<rparr>)"
  using assms
  by (simp add: TryAllocateWasmMemory_def gc_retry_def numeral_3_eq_3 reserve_memory_space_def
      reserve_def allocate_pages_def commit_memory_def granting_def log_def RecordStatus_def
      BackingStore_new_def empty_world_def wasm_store_def Let_def)

subsection \<open>Growing in place\<close>

text \<open>
  Claim C1, as the code has it. \<^verbatim>\<open>GrowWasmMemoryInPlace\<close> to a length that is not above
  the current one returns true and changes nothing; to a length above the current one and
  above the capacity it returns false and changes nothing, so for a backing store whose
  length is within its capacity every length above the capacity is refused; when
  \<^verbatim>\<open>SetPermissions\<close>, called on the range from the start of the buffer to the new length,
  refuses, it returns false, and only the trace has the refused call: the object is as
  before; otherwise it returns true, the length of the object is the new length, and the
  other fields and objects are as before.
\<close>

theorem GrowWasmMemoryInPlace_outcomes:
  "(n \<le> byte_length (objects w this) \<longrightarrow>
      GrowWasmMemoryInPlace env isolate this n w = (True, w)) \<and>
   (byte_length (objects w this) < n \<and> byte_capacity (objects w this) < n \<longrightarrow>
      GrowWasmMemoryInPlace env isolate this n w = (False, w)) \<and>
   (byte_length (objects w this) \<le> byte_capacity (objects w this) \<and>
    byte_capacity (objects w this) < n \<longrightarrow>
      GrowWasmMemoryInPlace env isolate this n w = (False, w)) \<and>
   (byte_length (objects w this) < n \<and> n \<le> byte_capacity (objects w this) \<and>
    \<not> SetPermissions env (trace w) (buffer_start (objects w this)) n \<longrightarrow>
      GrowWasmMemoryInPlace env isolate this n w =
        (False, log (SetPermissions_ev (buffer_start (objects w this)) n False) w) \<and>
      objects (snd (GrowWasmMemoryInPlace env isolate this n w)) = objects w) \<and>
   (byte_length (objects w this) < n \<and> n \<le> byte_capacity (objects w this) \<and>
    SetPermissions env (trace w) (buffer_start (objects w this)) n \<longrightarrow>
      fst (GrowWasmMemoryInPlace env isolate this n w) \<and>
      objects (snd (GrowWasmMemoryInPlace env isolate this n w)) =
        (objects w)(this := (objects w this)\<lparr>byte_length := n\<rparr>) \<and>
      trace (snd (GrowWasmMemoryInPlace env isolate this n w)) =
        trace w @ [SetPermissions_ev (buffer_start (objects w this)) n True,
                   AdjustAmountOfExternalAllocatedMemory_ev isolate
                     (n - byte_length (objects w this))])"
proof (intro conjI impI)
  assume "n \<le> byte_length (objects w this)"
  then show "GrowWasmMemoryInPlace env isolate this n w = (True, w)"
    by (simp add: GrowWasmMemoryInPlace_def)
next
  assume "byte_length (objects w this) < n \<and> byte_capacity (objects w this) < n"
  then show "GrowWasmMemoryInPlace env isolate this n w = (False, w)"
    by (simp add: GrowWasmMemoryInPlace_def)
next
  assume "byte_length (objects w this) \<le> byte_capacity (objects w this) \<and>
    byte_capacity (objects w this) < n"
  then show "GrowWasmMemoryInPlace env isolate this n w = (False, w)"
    by (simp add: GrowWasmMemoryInPlace_def)
next
  assume a: "byte_length (objects w this) < n \<and> n \<le> byte_capacity (objects w this) \<and>
      \<not> SetPermissions env (trace w) (buffer_start (objects w this)) n"
  then show "GrowWasmMemoryInPlace env isolate this n w =
          (False, log (SetPermissions_ev (buffer_start (objects w this)) n False) w)"
    by (simp add: GrowWasmMemoryInPlace_def Let_def)
  then show "objects (snd (GrowWasmMemoryInPlace env isolate this n w)) = objects w"
    by (simp add: log_def)
next
  assume a: "byte_length (objects w this) < n \<and> n \<le> byte_capacity (objects w this) \<and>
      SetPermissions env (trace w) (buffer_start (objects w this)) n"
  then show "fst (GrowWasmMemoryInPlace env isolate this n w)"
    by (simp add: GrowWasmMemoryInPlace_def Let_def)
  from a show "objects (snd (GrowWasmMemoryInPlace env isolate this n w)) =
          (objects w)(this := (objects w this)\<lparr>byte_length := n\<rparr>)"
    by (simp add: GrowWasmMemoryInPlace_def Let_def log_def)
  from a show "trace (snd (GrowWasmMemoryInPlace env isolate this n w)) =
          trace w @ [SetPermissions_ev (buffer_start (objects w this)) n True,
                     AdjustAmountOfExternalAllocatedMemory_ev isolate
                       (n - byte_length (objects w this))]"
    by (simp add: GrowWasmMemoryInPlace_def Let_def log_def)
qed

text \<open>
  A build without guard regions makes a backing store of two pages with a capacity of one
  page when it is asked for two initial pages and a maximum of one; growing this store to
  the two pages it has, which is above its capacity, returns true.
\<close>

theorem GrowWasmMemoryInPlace_outcomes_counterexample:
  "AllocateWasmMemory ia32 (granting 65536) 7 2 1 kNotShared (empty_world 0) =
     Inr (Suc 0, (empty_world 0)
       \<lparr>reserved_address_space := 65536,
        objects := (\<lambda>q. no_store)(Suc 0 := wasm_store 65536 131072 65536 False),
        live := {Suc 0}, last_object := Suc 0,
        trace := [ReserveAddressSpace_ev 65536 True, AllocatePages_ev 65536 65536 65536,
                  SetPermissions_ev 65536 131072 True, RecordStatus_ev 7 kSuccess]\<rparr>) \<and>
   byte_capacity (wasm_store 65536 131072 65536 False) < 131072 \<and>
   GrowWasmMemoryInPlace (granting 65536) 7 (Suc 0) 131072
     ((empty_world 0)
       \<lparr>reserved_address_space := 65536,
        objects := (\<lambda>q. no_store)(Suc 0 := wasm_store 65536 131072 65536 False),
        live := {Suc 0}, last_object := Suc 0,
        trace := [ReserveAddressSpace_ev 65536 True, AllocatePages_ev 65536 65536 65536,
                  SetPermissions_ev 65536 131072 True, RecordStatus_ev 7 kSuccess]\<rparr>) =
     (True, (empty_world 0)
       \<lparr>reserved_address_space := 65536,
        objects := (\<lambda>q. no_store)(Suc 0 := wasm_store 65536 131072 65536 False),
        live := {Suc 0}, last_object := Suc 0,
        trace := [ReserveAddressSpace_ev 65536 True, AllocatePages_ev 65536 65536 65536,
                  SetPermissions_ev 65536 131072 True, RecordStatus_ev 7 kSuccess]\<rparr>)"
proof -
  have "compute_reservation_size ia32 1 = 65536" and "compute_byte_capacity ia32 1 = 65536"
    and "size_t ia32 (2 * kWasmPageSize ia32) = 131072"
    by (simp_all add: compute_reservation_size_def compute_byte_capacity_def size_t_def ia32_def)
  moreover have "arch ia32 = V8_TARGET_ARCH_32_BIT" and "kV8MaxWasmMemoryPages ia32 = 32767"
    and "kWasmPageSize ia32 = 65536"
    by (simp_all add: ia32_def)
  ultimately have "AllocateWasmMemory ia32 (granting 65536) 7 2 1 kNotShared (empty_world 0) =
     Inr (Suc 0, (empty_world 0)
       \<lparr>reserved_address_space := 65536,
        objects := (\<lambda>q. no_store)(Suc 0 := wasm_store 65536 131072 65536 False),
        live := {Suc 0}, last_object := Suc 0,
        trace := [ReserveAddressSpace_ev 65536 True, AllocatePages_ev 65536 65536 65536,
                  SetPermissions_ev 65536 131072 True, RecordStatus_ev 7 kSuccess]\<rparr>)"
    using TryAllocateWasmMemory_granting [of 65536 ia32 0 1 7 2]
    by (simp add: AllocateWasmMemory_def)
  then show ?thesis
    by (simp add: GrowWasmMemoryInPlace_def wasm_store_def)
qed

lemma world_with_simps:
  "objects (world_with p bs) p = bs"
  "trace (world_with p bs) = []"
  "reserved_address_space (world_with p bs) = 0"
  "last_object (world_with p bs) = p"
  by (simp_all add: world_with_def empty_world_def)

theorem GrowWasmMemoryInPlace_outcomes_witness:
  "byte_length (objects (world_with 5 (wasm_store 4096 65536 131072 False)) 5) = 65536 \<and>
   byte_capacity (objects (world_with 5 (wasm_store 4096 65536 131072 False)) 5) = 131072 \<and>
   \<not> SetPermissions (refusing 0) (trace (world_with 5 (wasm_store 4096 65536 131072 False)))
       (buffer_start (objects (world_with 5 (wasm_store 4096 65536 131072 False)) 5)) 131072 \<and>
   SetPermissions (granting 4096) (trace (world_with 5 (wasm_store 4096 65536 131072 False)))
       (buffer_start (objects (world_with 5 (wasm_store 4096 65536 131072 False)) 5)) 131072 \<and>
   GrowWasmMemoryInPlace (granting 4096) 7 5 65536 (world_with 5 (wasm_store 4096 65536 131072 False))
     = (True, world_with 5 (wasm_store 4096 65536 131072 False)) \<and>
   GrowWasmMemoryInPlace (granting 4096) 7 5 196608 (world_with 5 (wasm_store 4096 65536 131072 False))
     = (False, world_with 5 (wasm_store 4096 65536 131072 False)) \<and>
   GrowWasmMemoryInPlace (refusing 0) 7 5 131072 (world_with 5 (wasm_store 4096 65536 131072 False))
     = (False, log (SetPermissions_ev 4096 131072 False)
                 (world_with 5 (wasm_store 4096 65536 131072 False))) \<and>
   fst (GrowWasmMemoryInPlace (granting 4096) 7 5 131072
          (world_with 5 (wasm_store 4096 65536 131072 False))) \<and>
   objects (snd (GrowWasmMemoryInPlace (granting 4096) 7 5 131072
          (world_with 5 (wasm_store 4096 65536 131072 False)))) 5
     = wasm_store 4096 131072 131072 False"
proof -
  let ?w = "world_with 5 (wasm_store 4096 65536 131072 False)"
  note o = world_with_simps
  have len: "byte_length (objects ?w 5) = 65536" and cap: "byte_capacity (objects ?w 5) = 131072"
    and start: "buffer_start (objects ?w 5) = 4096"
    by (simp_all add: o wasm_store_def)
  have no: "\<not> SetPermissions (refusing 0) (trace ?w) (buffer_start (objects ?w 5)) 131072"
    by (simp add: refusing_def)
  have yes: "SetPermissions (granting 4096) (trace ?w) (buffer_start (objects ?w 5)) 131072"
    by (simp add: granting_def)
  have 1: "GrowWasmMemoryInPlace (granting 4096) 7 5 65536 ?w = (True, ?w)"
    using GrowWasmMemoryInPlace_outcomes [of 65536 ?w 5 "granting 4096" 7] len
    by simp
  have 2: "GrowWasmMemoryInPlace (granting 4096) 7 5 196608 ?w = (False, ?w)"
    using GrowWasmMemoryInPlace_outcomes [of 196608 ?w 5 "granting 4096" 7] len cap
    by simp
  have 3: "GrowWasmMemoryInPlace (refusing 0) 7 5 131072 ?w
             = (False, log (SetPermissions_ev 4096 131072 False) ?w)"
    using GrowWasmMemoryInPlace_outcomes [of 131072 ?w 5 "refusing 0" 7] len cap no
    by (simp add: start)
  have 4: "fst (GrowWasmMemoryInPlace (granting 4096) 7 5 131072 ?w)"
    "objects (snd (GrowWasmMemoryInPlace (granting 4096) 7 5 131072 ?w)) 5
       = wasm_store 4096 131072 131072 False"
    using GrowWasmMemoryInPlace_outcomes [of 131072 ?w 5 "granting 4096" 7] len cap yes
    by (simp_all add: o wasm_store_def)
  from len cap no yes 1 2 3 4 show ?thesis
    by blast
qed

subsection \<open>Length and capacity\<close>

lemma size_t_small: "n < 2 ^ size_t_bits (arch cfg) \<Longrightarrow> size_t cfg n = n"
  by (simp add: size_t_def)

lemma initial_length_le_capacity:
  assumes fits: "kV8MaxWasmMemoryPages cfg * kWasmPageSize cfg < 2 ^ size_t_bits (arch cfg)"
    and init: "initial_pages \<le> kV8MaxWasmMemoryPages cfg"
    and max: "kUseGuardRegions (arch cfg) \<or> initial_pages \<le> m"
  shows "size_t cfg (initial_pages * kWasmPageSize cfg) \<le> compute_byte_capacity cfg m"
proof -
  have le: "initial_pages * kWasmPageSize cfg \<le> kV8MaxWasmMemoryPages cfg * kWasmPageSize cfg"
    using init by (rule mult_le_mono1)
  from le fits have "initial_pages * kWasmPageSize cfg < 2 ^ size_t_bits (arch cfg)"
    by (rule le_less_trans)
  then have len: "size_t cfg (initial_pages * kWasmPageSize cfg)
      = initial_pages * kWasmPageSize cfg"
    by (rule size_t_small)
  show ?thesis
  proof (cases "kUseGuardRegions (arch cfg)")
    case True
    with fits le len show ?thesis
      by (simp add: compute_byte_capacity_def size_t_small)
  next
    case False
    with max have "initial_pages \<le> min m (kV8MaxWasmMemoryPages cfg)"
      using init by simp
    then have 1: "initial_pages * kWasmPageSize cfg
        \<le> min m (kV8MaxWasmMemoryPages cfg) * kWasmPageSize cfg"
      by (rule mult_le_mono1)
    have "min m (kV8MaxWasmMemoryPages cfg) * kWasmPageSize cfg
        \<le> kV8MaxWasmMemoryPages cfg * kWasmPageSize cfg"
      by (rule mult_le_mono1) simp
    from this fits
    have "min m (kV8MaxWasmMemoryPages cfg) * kWasmPageSize cfg < 2 ^ size_t_bits (arch cfg)"
      by (rule le_less_trans)
    then have "size_t cfg (min m (kV8MaxWasmMemoryPages cfg) * kWasmPageSize cfg)
        = min m (kV8MaxWasmMemoryPages cfg) * kWasmPageSize cfg"
      by (rule size_t_small)
    with False 1 len show ?thesis
      by (simp add: compute_byte_capacity_def compute_reservation_size_def)
  qed
qed

lemma GrowWasmMemoryInPlace_objects:
  "objects (snd (GrowWasmMemoryInPlace env isolate this n w)) q =
     (if q = this \<and> fst (GrowWasmMemoryInPlace env isolate this n w) \<and>
         byte_length (objects w this) < n
      then (objects w this)\<lparr>byte_length := n\<rparr> else objects w q)"
  by (simp add: GrowWasmMemoryInPlace_def Let_def log_def)

lemma GrowWasmMemoryInPlace_True:
  "fst (GrowWasmMemoryInPlace env isolate this n w) \<Longrightarrow>
     n \<le> byte_length (objects w this) \<or> n \<le> byte_capacity (objects w this)"
  by (simp add: GrowWasmMemoryInPlace_def Let_def split: if_splits)

text \<open>
  Claim C2, as the code has it. When the product of the engine's page limit and the page
  size fits \<^verbatim>\<open>size_t\<close>, a backing store that \<^verbatim>\<open>AllocateWasmMemory\<close> returns has its length
  within its capacity if the build uses guard regions or the initial pages are not more
  than the maximum pages; and a call of \<^verbatim>\<open>GrowWasmMemoryInPlace\<close> that returns true leaves
  the length of every backing store within its capacity if it was so before.
\<close>

theorem AllocateWasmMemory_length_within_capacity:
  "(kV8MaxWasmMemoryPages cfg * kWasmPageSize cfg < 2 ^ size_t_bits (arch cfg) \<and>
    (kUseGuardRegions (arch cfg) \<or> initial_pages \<le> maximum_pages) \<and>
    store_of (AllocateWasmMemory cfg env isolate initial_pages maximum_pages shared w)
      = Some (p, bs) \<and> p \<noteq> 0 \<longrightarrow>
      byte_length bs \<le> byte_capacity bs) \<and>
   (byte_length (objects w q) \<le> byte_capacity (objects w q) \<and>
    fst (GrowWasmMemoryInPlace env isolate this n w) \<longrightarrow>
      byte_length (objects (snd (GrowWasmMemoryInPlace env isolate this n w)) q)
        \<le> byte_capacity (objects (snd (GrowWasmMemoryInPlace env isolate this n w)) q))"
proof (intro conjI impI)
  assume a: "kV8MaxWasmMemoryPages cfg * kWasmPageSize cfg < 2 ^ size_t_bits (arch cfg) \<and>
    (kUseGuardRegions (arch cfg) \<or> initial_pages \<le> maximum_pages) \<and>
    store_of (AllocateWasmMemory cfg env isolate initial_pages maximum_pages shared w)
      = Some (p, bs) \<and> p \<noteq> 0"
  then obtain w' where run:
    "AllocateWasmMemory cfg env isolate initial_pages maximum_pages shared w = Inr (p, w')"
    and bs: "bs = objects w' p"
    by (auto simp add: store_of_def split: sum.splits)
  from a have p: "p \<noteq> 0" by simp
  from AllocateWasmMemory_some [OF run p] obtain m v where
    init: "initial_pages \<le> kV8MaxWasmMemoryPages cfg"
    and m: "m = maximum_pages \<or> m = initial_pages \<and> initial_pages < maximum_pages"
    and alloc: "TryAllocateWasmMemory cfg env isolate initial_pages m shared v = Inr (p, w')"
    by blast
  from a m have "kUseGuardRegions (arch cfg) \<or> initial_pages \<le> m"
    by auto
  with a init have le: "size_t cfg (initial_pages * kWasmPageSize cfg)
      \<le> compute_byte_capacity cfg m"
    by (intro initial_length_le_capacity) simp_all
  from TryAllocateWasmMemory_some(2) [OF alloc p] bs le
  show "byte_length bs \<le> byte_capacity bs"
    by auto
next
  assume a: "byte_length (objects w q) \<le> byte_capacity (objects w q) \<and>
    fst (GrowWasmMemoryInPlace env isolate this n w)"
  with GrowWasmMemoryInPlace_True [of env isolate this n w]
  show "byte_length (objects (snd (GrowWasmMemoryInPlace env isolate this n w)) q)
        \<le> byte_capacity (objects (snd (GrowWasmMemoryInPlace env isolate this n w)) q)"
    by (auto simp add: GrowWasmMemoryInPlace_objects)
qed

theorem AllocateWasmMemory_length_within_capacity_counterexample:
  "store_of (AllocateWasmMemory ia32 (granting 65536) 7 2 1 kNotShared (empty_world 0))
     = Some (1, wasm_store 65536 131072 65536 False) \<and>
   byte_capacity (wasm_store 65536 131072 65536 False)
     < byte_length (wasm_store 65536 131072 65536 False)"
proof -
  have "compute_reservation_size ia32 1 = 65536" and "compute_byte_capacity ia32 1 = 65536"
    and "size_t ia32 (2 * kWasmPageSize ia32) = 131072"
    by (simp_all add: compute_reservation_size_def compute_byte_capacity_def size_t_def ia32_def)
  moreover have "arch ia32 = V8_TARGET_ARCH_32_BIT" and "kV8MaxWasmMemoryPages ia32 = 32767"
    by (simp_all add: ia32_def)
  ultimately show ?thesis
    using TryAllocateWasmMemory_granting [of 65536 ia32 0 1 7 2]
    by (simp add: AllocateWasmMemory_def store_of_def wasm_store_def)
qed

theorem AllocateWasmMemory_length_within_capacity_witness:
  "kV8MaxWasmMemoryPages x64 * kWasmPageSize x64 < 2 ^ size_t_bits (arch x64) \<and>
   kUseGuardRegions (arch x64) \<and>
   store_of (AllocateWasmMemory x64 (granting 4294967296) 7 1 10 kNotShared (empty_world 0))
     = Some (1, wasm_store 6442450944 65536 4294967296 True) \<and>
   byte_length (wasm_store 6442450944 65536 4294967296 True)
     \<le> byte_capacity (wasm_store 6442450944 65536 4294967296 True) \<and>
   byte_length (objects (world_with 5 (wasm_store 6442450944 65536 4294967296 True)) 5)
     \<le> byte_capacity (objects (world_with 5 (wasm_store 6442450944 65536 4294967296 True)) 5) \<and>
   fst (GrowWasmMemoryInPlace (granting 4294967296) 7 5 327680
          (world_with 5 (wasm_store 6442450944 65536 4294967296 True))) \<and>
   byte_length (objects (snd (GrowWasmMemoryInPlace (granting 4294967296) 7 5 327680
          (world_with 5 (wasm_store 6442450944 65536 4294967296 True)))) 5)
     \<le> byte_capacity (objects (snd (GrowWasmMemoryInPlace (granting 4294967296) 7 5 327680
          (world_with 5 (wasm_store 6442450944 65536 4294967296 True)))) 5)"
proof -
  let ?bs = "wasm_store 6442450944 65536 4294967296 True"
  have h1: "kV8MaxWasmMemoryPages x64 * kWasmPageSize x64 < 2 ^ size_t_bits (arch x64)"
    and h2: "kUseGuardRegions (arch x64)"
    by (simp_all add: x64_def)
  have "compute_reservation_size x64 10 = 10737418240"
    and "compute_byte_capacity x64 10 = 4294967296"
    and "size_t x64 (kWasmPageSize x64) = 65536"
    by (simp_all add: compute_reservation_size_def compute_byte_capacity_def size_t_def x64_def
        kFullGuardSize_def GB_def)
  moreover have "arch x64 = V8_TARGET_ARCH_64_BIT" and "kV8MaxWasmMemoryPages x64 = 65536"
    by (simp_all add: x64_def)
  ultimately have h3:
    "store_of (AllocateWasmMemory x64 (granting 4294967296) 7 1 10 kNotShared (empty_world 0))
       = Some (1, ?bs)"
    using TryAllocateWasmMemory_granting [of 4294967296 x64 0 10 7 1]
    by (simp add: AllocateWasmMemory_def store_of_def wasm_store_def kNegativeGuardSize_def GB_def)
  have h4: "byte_length (objects (world_with 5 ?bs) 5) \<le> byte_capacity (objects (world_with 5 ?bs) 5)"
    by (simp add: world_with_simps wasm_store_def)
  have h5: "fst (GrowWasmMemoryInPlace (granting 4294967296) 7 5 327680 (world_with 5 ?bs))"
    by (simp add: GrowWasmMemoryInPlace_def world_with_simps wasm_store_def granting_def Let_def)
  have c1: "byte_length ?bs \<le> byte_capacity ?bs"
    using AllocateWasmMemory_length_within_capacity
      [of x64 1 10 "granting 4294967296" 7 kNotShared "empty_world 0" 1 ?bs] h1 h2 h3
    by simp
  have c2: "byte_length (objects (snd (GrowWasmMemoryInPlace (granting 4294967296) 7 5 327680
          (world_with 5 ?bs))) 5)
     \<le> byte_capacity (objects (snd (GrowWasmMemoryInPlace (granting 4294967296) 7 5 327680
          (world_with 5 ?bs))) 5)"
    using AllocateWasmMemory_length_within_capacity
      [of x64 1 10 "granting 4294967296" 7 kNotShared "world_with 5 ?bs" 1 ?bs 5 5 327680] h4 h5
    by blast
  from h1 h2 h3 h4 h5 c1 c2 show ?thesis
    by blast
qed

subsection \<open>Retries and failures of \<^verbatim>\<open>TryAllocateWasmMemory\<close>\<close>










subsection \<open>The guard region path\<close>

lemma guards_64_bit: "kUseGuardRegions (arch cfg) \<Longrightarrow> size_t_bits (arch cfg) = 64"
  by (cases "arch cfg") simp_all

lemma compute_reservation_size_guards:
  "kUseGuardRegions (arch cfg) \<Longrightarrow> compute_reservation_size cfg m = 10 * 2 ^ 30"
  by (simp add: compute_reservation_size_def size_t_def guards_64_bit kFullGuardSize_def GB_def)

text \<open>
  Claim C9. On a build with guard regions, for a backing store that
  \<^verbatim>\<open>TryAllocateWasmMemory\<close> returns, whatever the maximum pages asked for: the size reserved
  is \<open>10\<close> GiB, and the counter has gone up by exactly that (and down by what the
  collections during the call released); the capacity is the product of the engine's page
  limit and the page size, as \<^verbatim>\<open>size_t\<close> computes it; and \<^verbatim>\<open>GrowWasmMemoryInPlace\<close> to any
  length above the current one and within that capacity succeeds whenever
  \<^verbatim>\<open>SetPermissions\<close> grants the range, also when the length is above the maximum asked for.
\<close>

theorem TryAllocateWasmMemory_guard_path:
  "kUseGuardRegions (arch cfg) \<and>
   TryAllocateWasmMemory cfg env isolate initial_pages maximum_pages shared w = Inr (p, w') \<and>
   p \<noteq> 0 \<longrightarrow>
     compute_reservation_size cfg maximum_pages = 10 * 2 ^ 30 \<and>
     byte_capacity (objects w' p)
       = (kV8MaxWasmMemoryPages cfg * kWasmPageSize cfg) mod 2 ^ 64 \<and>
     (\<exists>evs. trace w' = trace w @ evs \<and>
        reserved_address_space w' = reserved_address_space w - released evs + kFullGuardSize) \<and>
     (\<forall>n. byte_length (objects w' p) < n \<and>
          n \<le> (kV8MaxWasmMemoryPages cfg * kWasmPageSize cfg) mod 2 ^ 64 \<and>
          SetPermissions env (trace w') (buffer_start (objects w' p)) n \<longrightarrow>
          fst (GrowWasmMemoryInPlace env isolate p n w') \<and>
          byte_length (objects (snd (GrowWasmMemoryInPlace env isolate p n w')) p) = n)"
proof (intro impI)
  assume a: "kUseGuardRegions (arch cfg) \<and>
    TryAllocateWasmMemory cfg env isolate initial_pages maximum_pages shared w = Inr (p, w') \<and>
    p \<noteq> 0"
  then have g: "kUseGuardRegions (arch cfg)"
    and run: "TryAllocateWasmMemory cfg env isolate initial_pages maximum_pages shared w
                = Inr (p, w')"
    and p: "p \<noteq> 0"
    by simp_all
  note n = compute_reservation_size_guards [OF g, of maximum_pages]
  from TryAllocateWasmMemory_some(2) [OF run p] g
  have cap: "byte_capacity (objects w' p)
       = (kV8MaxWasmMemoryPages cfg * kWasmPageSize cfg) mod 2 ^ 64"
    by (auto simp add: compute_byte_capacity_def size_t_def guards_64_bit)
  from TryAllocateWasmMemory_some(8) [OF run p]
  have counter: "\<exists>evs. trace w' = trace w @ evs \<and>
        reserved_address_space w' = reserved_address_space w - released evs + kFullGuardSize"
    by (simp add: n kFullGuardSize_def GB_def)
  have grow: "fst (GrowWasmMemoryInPlace env isolate p k w') \<and>
      byte_length (objects (snd (GrowWasmMemoryInPlace env isolate p k w')) p) = k"
    if "byte_length (objects w' p) < k \<and>
          k \<le> (kV8MaxWasmMemoryPages cfg * kWasmPageSize cfg) mod 2 ^ 64 \<and>
          SetPermissions env (trace w') (buffer_start (objects w' p)) k" for k
    using that cap by (simp add: GrowWasmMemoryInPlace_def Let_def log_def)
  from n cap counter grow
  show "compute_reservation_size cfg maximum_pages = 10 * 2 ^ 30 \<and>
     byte_capacity (objects w' p)
       = (kV8MaxWasmMemoryPages cfg * kWasmPageSize cfg) mod 2 ^ 64 \<and>
     (\<exists>evs. trace w' = trace w @ evs \<and>
        reserved_address_space w' = reserved_address_space w - released evs + kFullGuardSize) \<and>
     (\<forall>n. byte_length (objects w' p) < n \<and>
          n \<le> (kV8MaxWasmMemoryPages cfg * kWasmPageSize cfg) mod 2 ^ 64 \<and>
          SetPermissions env (trace w') (buffer_start (objects w' p)) n \<longrightarrow>
          fst (GrowWasmMemoryInPlace env isolate p n w') \<and>
          byte_length (objects (snd (GrowWasmMemoryInPlace env isolate p n w')) p) = n)"
    by blast
qed

text \<open>
  One page is asked for with a maximum of two pages; the memory then grows in place to
  five pages.
\<close>

theorem TryAllocateWasmMemory_guard_path_witness:
  "kUseGuardRegions (arch x64) \<and>
   TryAllocateWasmMemory x64 (granting 4294967296) 7 1 2 kNotShared (empty_world 0) =
     Inr (1, (empty_world 0)
       \<lparr>reserved_address_space := 10737418240,
        objects := (\<lambda>q. no_store)(1 := wasm_store 6442450944 65536 4294967296 True),
        live := {1}, last_object := 1,
        trace :=
          [ReserveAddressSpace_ev 10737418240 True,
           AllocatePages_ev 10737418240 65536 4294967296,
           SetPermissions_ev 6442450944 65536 True,
           RecordStatus_ev 7 kSuccess]\<rparr>) \<and>
   compute_reservation_size x64 2 = 10737418240 \<and>
   fst (GrowWasmMemoryInPlace (granting 4294967296) 7 1 327680
     ((empty_world 0)
       \<lparr>reserved_address_space := 10737418240,
        objects := (\<lambda>q. no_store)(1 := wasm_store 6442450944 65536 4294967296 True),
        live := {1}, last_object := 1,
        trace :=
          [ReserveAddressSpace_ev 10737418240 True,
           AllocatePages_ev 10737418240 65536 4294967296,
           SetPermissions_ev 6442450944 65536 True,
           RecordStatus_ev 7 kSuccess]\<rparr>))"
proof -
  let ?w' = "(empty_world 0)
       \<lparr>reserved_address_space := 10737418240,
        objects := (\<lambda>q. no_store)(1 := wasm_store 6442450944 65536 4294967296 True),
        live := {1}, last_object := 1,
        trace :=
          [ReserveAddressSpace_ev 10737418240 True,
           AllocatePages_ev 10737418240 65536 4294967296,
           SetPermissions_ev 6442450944 65536 True,
           RecordStatus_ev 7 kSuccess]\<rparr>"
  have h1: "kUseGuardRegions (arch x64)"
    by (simp add: x64_def)
  have "compute_reservation_size x64 2 = 10737418240"
    and "compute_byte_capacity x64 2 = 4294967296"
    and "size_t x64 (kWasmPageSize x64) = 65536"
    by (simp_all add: compute_reservation_size_def compute_byte_capacity_def size_t_def x64_def
        kFullGuardSize_def GB_def)
  moreover have "arch x64 = V8_TARGET_ARCH_64_BIT" and "kWasmPageSize x64 = 65536"
    by (simp_all add: x64_def)
  ultimately have h2:
    "TryAllocateWasmMemory x64 (granting 4294967296) 7 1 2 kNotShared (empty_world 0)
       = Inr (1, ?w')"
    using TryAllocateWasmMemory_granting [of 4294967296 x64 0 2 7 1]
    by (simp add: kNegativeGuardSize_def GB_def)
  have h3: "(1 :: nat) \<noteq> 0"
    by simp
  have o: "objects ?w' 1 = wasm_store 6442450944 65536 4294967296 True"
    by simp
  have h4: "byte_length (objects ?w' 1) < 327680 \<and>
      327680 \<le> (kV8MaxWasmMemoryPages x64 * kWasmPageSize x64) mod 2 ^ 64 \<and>
      SetPermissions (granting 4294967296) (trace ?w') (buffer_start (objects ?w' 1)) 327680"
    unfolding o by (simp add: wasm_store_def x64_def granting_def)
  from TryAllocateWasmMemory_guard_path
    [of x64 "granting 4294967296" 7 1 2 kNotShared "empty_world 0" 1 ?w'] h1 h2 h3
  have c: "compute_reservation_size x64 2 = 10 * 2 ^ 30" and
    "\<forall>n. byte_length (objects ?w' 1) < n \<and>
          n \<le> (kV8MaxWasmMemoryPages x64 * kWasmPageSize x64) mod 2 ^ 64 \<and>
          SetPermissions (granting 4294967296) (trace ?w') (buffer_start (objects ?w' 1)) n \<longrightarrow>
          fst (GrowWasmMemoryInPlace (granting 4294967296) 7 1 n ?w') \<and>
          byte_length (objects (snd (GrowWasmMemoryInPlace (granting 4294967296) 7 1 n ?w')) 1) = n"
    by blast+
  with h4 have g: "fst (GrowWasmMemoryInPlace (granting 4294967296) 7 1 327680 ?w')"
    by blast
  from c have "compute_reservation_size x64 2 = 10737418240"
    by simp
  with h1 h2 g show ?thesis
    by blast
qed

subsection \<open>The global registry\<close>

lemma Register_cases:
  "Register p w =
     (if p = 0 \<or> globally_registered (objects w p) then Inr w
      else if registry_map w (buffer_start (objects w p)) \<noteq> None then Inl CHECK_failed
      else Inr (w\<lparr>registry_map := (registry_map w)(buffer_start (objects w p) \<mapsto> p),
                 objects := (objects w)(p := (objects w p)\<lparr>globally_registered := True\<rparr>)\<rparr>))"
  by (auto simp add: Register_def Let_def split: option.splits)

text \<open>
  Claim C7, as the code has it. Let a live backing store be given that is not registered.
  If the map has no entry at its start address, \<^verbatim>\<open>Register\<close> returns, with the entry made
  and the flag \<^verbatim>\<open>globally_registered_\<close> set; then \<^verbatim>\<open>Lookup\<close> of the start address, with any
  length, returns the address of this very object; after \<^verbatim>\<open>Unregister\<close> it returns the
  null pointer; registering once more changes nothing, and so does unregistering once
  more. \<^verbatim>\<open>Register\<close> fails to return exactly when the store is not registered and the map
  has an entry at its start address, as it has when another store is keyed there: then
  the \<^verbatim>\<open>CHECK\<close> on the insertion fails. A live store that is registered and keyed at its
  start address is found by \<^verbatim>\<open>Lookup\<close>, and is not found after \<^verbatim>\<open>Unregister\<close>. \<^verbatim>\<open>Register\<close>
  of the null pointer and of a store whose flag is set, and \<^verbatim>\<open>Unregister\<close> of a store whose
  flag is not set, leave the process as it is.
\<close>

theorem Register_Lookup_Unregister:
  "(p \<noteq> 0 \<and> p \<in> live w \<and> \<not> globally_registered (objects w p) \<and>
    registry_map w (buffer_start (objects w p)) = None \<longrightarrow>
      (\<exists>w1. Register p w = Inr w1 \<and>
         w1 = w\<lparr>registry_map := (registry_map w)(buffer_start (objects w p) \<mapsto> p),
                 objects := (objects w)(p := (objects w p)\<lparr>globally_registered := True\<rparr>)\<rparr> \<and>
         Lookup (buffer_start (objects w p)) len w1 = p \<and>
         Lookup (buffer_start (objects w p)) len (Unregister p w1) = 0 \<and>
         Register p w1 = Inr w1 \<and>
         Unregister p (Unregister p w1) = Unregister p w1)) \<and>
   (Register p w = Inl CHECK_failed \<longleftrightarrow>
      p \<noteq> 0 \<and> \<not> globally_registered (objects w p) \<and>
      registry_map w (buffer_start (objects w p)) \<noteq> None) \<and>
   (p \<in> live w \<and> globally_registered (objects w p) \<and>
    registry_map w (buffer_start (objects w p)) = Some p \<longrightarrow>
      Lookup (buffer_start (objects w p)) len w = p \<and>
      Lookup (buffer_start (objects w p)) len (Unregister p w) = 0) \<and>
   (p = 0 \<or> globally_registered (objects w p) \<longrightarrow> Register p w = Inr w) \<and>
   (\<not> globally_registered (objects w p) \<longrightarrow> Unregister p w = w)"
proof (intro conjI impI)
  let ?w1 = "w\<lparr>registry_map := (registry_map w)(buffer_start (objects w p) \<mapsto> p),
                objects := (objects w)(p := (objects w p)\<lparr>globally_registered := True\<rparr>)\<rparr>"
  assume a: "p \<noteq> 0 \<and> p \<in> live w \<and> \<not> globally_registered (objects w p) \<and>
    registry_map w (buffer_start (objects w p)) = None"
  then have 1: "Register p w = Inr ?w1"
    by (simp add: Register_cases)
  have 2: "Lookup (buffer_start (objects w p)) len ?w1 = p"
    using a by (simp add: Lookup_def)
  have 3: "Lookup (buffer_start (objects w p)) len (Unregister p ?w1) = 0"
    by (simp add: Lookup_def Unregister_def Let_def)
  have 4: "Register p ?w1 = Inr ?w1"
    by (simp add: Register_cases)
  have 5: "Unregister p (Unregister p ?w1) = Unregister p ?w1"
    by (simp add: Unregister_def Let_def)
  from 1 2 3 4 5
  show "\<exists>w1. Register p w = Inr w1 \<and>
         w1 = w\<lparr>registry_map := (registry_map w)(buffer_start (objects w p) \<mapsto> p),
                 objects := (objects w)(p := (objects w p)\<lparr>globally_registered := True\<rparr>)\<rparr> \<and>
         Lookup (buffer_start (objects w p)) len w1 = p \<and>
         Lookup (buffer_start (objects w p)) len (Unregister p w1) = 0 \<and>
         Register p w1 = Inr w1 \<and>
         Unregister p (Unregister p w1) = Unregister p w1"
    by blast
next
  show "Register p w = Inl CHECK_failed \<longleftrightarrow>
      p \<noteq> 0 \<and> \<not> globally_registered (objects w p) \<and>
      registry_map w (buffer_start (objects w p)) \<noteq> None"
    by (auto simp add: Register_cases)
next
  assume a: "p \<in> live w \<and> globally_registered (objects w p) \<and>
    registry_map w (buffer_start (objects w p)) = Some p"
  then show "Lookup (buffer_start (objects w p)) len w = p"
    by (simp add: Lookup_def)
  from a show "Lookup (buffer_start (objects w p)) len (Unregister p w) = 0"
    by (simp add: Lookup_def Unregister_def Let_def)
next
  assume "p = 0 \<or> globally_registered (objects w p)"
  then show "Register p w = Inr w"
    by (simp add: Register_cases)
next
  assume "\<not> globally_registered (objects w p)"
  then show "Unregister p w = w"
    by (simp add: Unregister_def)
qed

text \<open>
  Of two live backing stores on the same memory the first is registered, and the
  registration of the second does not return.
\<close>

theorem Register_Lookup_Unregister_counterexample:
  "5 \<in> live twice_wrapped \<and> 6 \<in> live twice_wrapped \<and>
   Register 5 twice_wrapped =
     Inr (twice_wrapped
       \<lparr>registry_map := [4096 \<mapsto> 5],
        objects := (objects twice_wrapped)
          (5 := (wrapped_store 4096 16)\<lparr>globally_registered := True\<rparr>)\<rparr>) \<and>
   6 \<in> live (twice_wrapped
       \<lparr>registry_map := [4096 \<mapsto> 5],
        objects := (objects twice_wrapped)
          (5 := (wrapped_store 4096 16)\<lparr>globally_registered := True\<rparr>)\<rparr>) \<and>
   Register 6 (twice_wrapped
       \<lparr>registry_map := [4096 \<mapsto> 5],
        objects := (objects twice_wrapped)
          (5 := (wrapped_store 4096 16)\<lparr>globally_registered := True\<rparr>)\<rparr>) = Inl CHECK_failed"
  by (simp add: Register_cases twice_wrapped_def empty_world_def wrapped_store_def)

theorem Register_Lookup_Unregister_witness:
  "(5 :: nat) \<noteq> 0 \<and> 5 \<in> live (world_with 5 (wasm_store 4096 65536 131072 False)) \<and>
   \<not> globally_registered (objects (world_with 5 (wasm_store 4096 65536 131072 False)) 5) \<and>
   registry_map (world_with 5 (wasm_store 4096 65536 131072 False))
     (buffer_start (objects (world_with 5 (wasm_store 4096 65536 131072 False)) 5)) = None \<and>
   Register 5 (world_with 5 (wasm_store 4096 65536 131072 False)) =
     Inr ((world_with 5 (wasm_store 4096 65536 131072 False))
            \<lparr>registry_map := [4096 \<mapsto> 5],
             objects := (\<lambda>q. no_store)
               (5 := (wasm_store 4096 65536 131072 False)\<lparr>globally_registered := True\<rparr>)\<rparr>) \<and>
   Lookup 4096 65536
     ((world_with 5 (wasm_store 4096 65536 131072 False))
        \<lparr>registry_map := [4096 \<mapsto> 5],
         objects := (\<lambda>q. no_store)
           (5 := (wasm_store 4096 65536 131072 False)\<lparr>globally_registered := True\<rparr>)\<rparr>) = 5 \<and>
   Lookup 4096 65536
     (Unregister 5
        ((world_with 5 (wasm_store 4096 65536 131072 False))
           \<lparr>registry_map := [4096 \<mapsto> 5],
            objects := (\<lambda>q. no_store)
              (5 := (wasm_store 4096 65536 131072 False)\<lparr>globally_registered := True\<rparr>)\<rparr>)) = 0 \<and>
   Unregister 5 (world_with 5 (wasm_store 4096 65536 131072 False))
     = world_with 5 (wasm_store 4096 65536 131072 False) \<and>
   5 \<in> live ((world_with 5 (wasm_store 4096 65536 131072 False))
        \<lparr>registry_map := [4096 \<mapsto> 5],
         objects := (\<lambda>q. no_store)
           (5 := (wasm_store 4096 65536 131072 False)\<lparr>globally_registered := True\<rparr>)\<rparr>) \<and>
   globally_registered (objects
     ((world_with 5 (wasm_store 4096 65536 131072 False))
        \<lparr>registry_map := [4096 \<mapsto> 5],
         objects := (\<lambda>q. no_store)
           (5 := (wasm_store 4096 65536 131072 False)\<lparr>globally_registered := True\<rparr>)\<rparr>) 5) \<and>
   registry_map
     ((world_with 5 (wasm_store 4096 65536 131072 False))
        \<lparr>registry_map := [4096 \<mapsto> 5],
         objects := (\<lambda>q. no_store)
           (5 := (wasm_store 4096 65536 131072 False)\<lparr>globally_registered := True\<rparr>)\<rparr>) 4096
     = Some 5 \<and>
   Register 5
     ((world_with 5 (wasm_store 4096 65536 131072 False))
        \<lparr>registry_map := [4096 \<mapsto> 5],
         objects := (\<lambda>q. no_store)
           (5 := (wasm_store 4096 65536 131072 False)\<lparr>globally_registered := True\<rparr>)\<rparr>) =
     Inr ((world_with 5 (wasm_store 4096 65536 131072 False))
        \<lparr>registry_map := [4096 \<mapsto> 5],
         objects := (\<lambda>q. no_store)
           (5 := (wasm_store 4096 65536 131072 False)\<lparr>globally_registered := True\<rparr>)\<rparr>)"
proof -
  let ?bs = "wasm_store 4096 65536 131072 False"
  let ?w = "world_with 5 ?bs"
  let ?w1 = "?w\<lparr>registry_map := [4096 \<mapsto> 5],
    objects := (\<lambda>q. no_store)(5 := ?bs\<lparr>globally_registered := True\<rparr>)\<rparr>"
  have o: "objects ?w 5 = ?bs"
    by (rule world_with_simps)
  have s: "buffer_start (objects ?w 5) = 4096"
    unfolding o by (simp add: wasm_store_def)
  have u: "?w\<lparr>registry_map := (registry_map ?w)(4096 \<mapsto> 5),
              objects := (objects ?w)(5 := (objects ?w 5)\<lparr>globally_registered := True\<rparr>)\<rparr> = ?w1"
    by (simp add: world_with_def empty_world_def)
  have h1: "(5 :: nat) \<noteq> 0"
    by simp
  have h2: "5 \<in> live ?w"
    by (simp add: world_with_def)
  have h3: "\<not> globally_registered (objects ?w 5)"
    unfolding o by (simp add: wasm_store_def)
  have h4: "registry_map ?w (buffer_start (objects ?w 5)) = None"
    by (simp add: world_with_def empty_world_def)
  from Register_Lookup_Unregister [of 5 ?w 65536] h1 h2 h3 h4
  obtain w1 where "Register 5 ?w = Inr w1"
    and "w1 = ?w\<lparr>registry_map := (registry_map ?w)(4096 \<mapsto> 5),
              objects := (objects ?w)(5 := (objects ?w 5)\<lparr>globally_registered := True\<rparr>)\<rparr>"
    and "Lookup 4096 65536 w1 = 5" and "Lookup 4096 65536 (Unregister 5 w1) = 0"
    unfolding s by blast
  then have c1: "Register 5 ?w = Inr ?w1" and c2: "Lookup 4096 65536 ?w1 = 5"
    and c3: "Lookup 4096 65536 (Unregister 5 ?w1) = 0"
    unfolding u by simp_all
  from Register_Lookup_Unregister [of 5 ?w] h3
  have c4: "Unregister 5 ?w = ?w"
    by blast
  have g1: "5 \<in> live ?w1"
    by (simp add: world_with_def)
  have g2: "globally_registered (objects ?w1 5)"
    by (simp add: wasm_store_def)
  have g3: "registry_map ?w1 4096 = Some 5"
    by simp
  from Register_Lookup_Unregister [of 5 ?w1] g2
  have c5: "Register 5 ?w1 = Inr ?w1"
    by blast
  from h1 h2 h3 h4 g1 g2 g3 c1 c2 c3 c4 c5 show ?thesis
    by blast
qed

subsection \<open>Broadcasting growth\<close>

lemma attached_Cons:
  "fmlookup ns a = Some entry \<Longrightarrow> attached ns (a # as) = entry # attached ns as"
  by (simp add: attached_def List.map_filter_simps)

lemma gather_chain:
  "chain (nodes w) p as \<Longrightarrow>
     gather isolate p (acc, w) =
       Some (Inr (acc @ map node_memory_object
                          (filter (updated_by isolate) (attached (nodes w) as)),
                  w\<lparr>trace := trace w @
                      map (\<lambda>entry. RequestGrowSharedMemory_ev (node_isolate entry))
                        (filter (\<lambda>entry. \<not> updated_by isolate entry)
                           (attached (nodes w) as))\<rparr>))"
proof (induction as arbitrary: p acc w)
  case Nil
  then show ?case
    by (subst gather.simps) (simp add: attached_def List.map_filter_simps)
next
  case (Cons a as)
  from Cons.prems obtain entry where pa: "p = a" and a: "a \<noteq> 0"
    and look: "fmlookup (nodes w) a = Some entry"
    and rest: "chain (nodes w) (node_next entry) as"
    by (auto split: option.splits)
  show ?case
  proof (cases "updated_by isolate entry")
    case True
    have "gather isolate p (acc, w)
        = gather isolate (node_next entry) (acc @ [node_memory_object entry], w)"
      using True pa a look by (subst gather.simps) (simp add: updated_by_def)
    also note Cons.IH [OF rest]
    finally show ?thesis
      using True by (simp add: attached_Cons [OF look])
  next
    case False
    let ?v = "log (RequestGrowSharedMemory_ev (node_isolate entry)) w"
    have n: "nodes ?v = nodes w"
      by (simp add: log_def)
    have "gather isolate p (acc, w) = gather isolate (node_next entry) (acc, ?v)"
      using False pa a look by (subst gather.simps) (auto simp add: updated_by_def)
    also have "\<dots> = Some (Inr (acc @ map node_memory_object
                          (filter (updated_by isolate) (attached (nodes ?v) as)),
                  ?v\<lparr>trace := trace ?v @
                      map (\<lambda>entry. RequestGrowSharedMemory_ev (node_isolate entry))
                        (filter (\<lambda>entry. \<not> updated_by isolate entry)
                           (attached (nodes ?v) as))\<rparr>))"
      using rest by (intro Cons.IH) (simp add: n)
    finally show ?thesis
      using False by (simp add: attached_Cons [OF look] n log_def)
  qed
qed

lemma update_memory_object_eq:
  "update_memory_object isolate backing_store w h =
     w\<lparr>array_buffer := (array_buffer w)(h \<mapsto>
           \<lparr> ab_backing_store = backing_store,
             ab_byte_length = byte_length (objects w backing_store) \<rparr>),
       trace := trace w @ [NewJSSharedArrayBuffer_ev isolate]\<rparr>"
  by (simp add: update_memory_object_def update_instances_def Attach_def log_def Let_def)

lemma foldl_update_memory_object:
  "array_buffer (foldl (update_memory_object isolate backing_store) w hs) h =
     (if h \<in> set hs
      then Some \<lparr> ab_backing_store = backing_store,
                  ab_byte_length = byte_length (objects w backing_store) \<rparr>
      else array_buffer w h) \<and>
   trace (foldl (update_memory_object isolate backing_store) w hs) =
     trace w @ replicate (length hs) (NewJSSharedArrayBuffer_ev isolate) \<and>
   objects (foldl (update_memory_object isolate backing_store) w hs) = objects w \<and>
   nodes (foldl (update_memory_object isolate backing_store) w hs) = nodes w \<and>
   live (foldl (update_memory_object isolate backing_store) w hs) = live w \<and>
   registry_map (foldl (update_memory_object isolate backing_store) w hs) = registry_map w \<and>
   reserved_address_space (foldl (update_memory_object isolate backing_store) w hs)
     = reserved_address_space w \<and>
   memory (foldl (update_memory_object isolate backing_store) w hs) = memory w"
proof (induction hs arbitrary: w)
  case Nil
  show ?case by simp
next
  case (Cons h' hs)
  have "replicate (length hs) (NewJSSharedArrayBuffer_ev isolate) @ [NewJSSharedArrayBuffer_ev isolate]
      = NewJSSharedArrayBuffer_ev isolate # replicate (length hs) (NewJSSharedArrayBuffer_ev isolate)"
    by (simp add: replicate_append_same)
  with Cons.IH [of "update_memory_object isolate backing_store w h'"] show ?case
    by (simp add: update_memory_object_eq)
qed

lemma BroadcastSharedWasmMemoryGrow_result:
  assumes "is_wasm_memory (objects w backing_store)" and "is_shared (objects w backing_store)"
    and "type_specific_data (objects w backing_store) \<noteq> 0"
    and "fmlookup (nodes w) (type_specific_data (objects w backing_store)) = Some head"
    and "chain (nodes w) (node_next head) as"
  shows "\<exists>w'. BroadcastSharedWasmMemoryGrow isolate backing_store new_size w = Some (Inr w') \<and>
     nodes w' = nodes w \<and> objects w' = objects w \<and> live w' = live w \<and>
     registry_map w' = registry_map w \<and>
     reserved_address_space w' = reserved_address_space w \<and> memory w' = memory w \<and>
     (\<forall>h. array_buffer w' h =
        (if h \<in> set (map node_memory_object
                        (filter (updated_by isolate) (attached (nodes w) as)))
         then Some \<lparr> ab_backing_store = backing_store,
                     ab_byte_length = byte_length (objects w backing_store) \<rparr>
         else array_buffer w h)) \<and>
     trace w' = trace w @
       map (\<lambda>entry. RequestGrowSharedMemory_ev (node_isolate entry))
         (filter (\<lambda>entry. \<not> updated_by isolate entry) (attached (nodes w) as)) @
       replicate (length (filter (updated_by isolate) (attached (nodes w) as)))
         (NewJSSharedArrayBuffer_ev isolate)"
proof -
  let ?hs = "map node_memory_object (filter (updated_by isolate) (attached (nodes w) as))"
  let ?w1 = "w\<lparr>trace := trace w @
       map (\<lambda>entry. RequestGrowSharedMemory_ev (node_isolate entry))
         (filter (\<lambda>entry. \<not> updated_by isolate entry) (attached (nodes w) as))\<rparr>"
  let ?w' = "foldl (update_memory_object isolate backing_store) ?w1 ?hs"
  have "gather isolate (node_next head) ([], w) = Some (Inr (?hs, ?w1))"
    using gather_chain [OF assms(5), of isolate "[]"] by simp
  with assms(1-4)
  have "BroadcastSharedWasmMemoryGrow isolate backing_store new_size w = Some (Inr ?w')"
    by (simp add: BroadcastSharedWasmMemoryGrow_def get_shared_wasm_memory_data_def)
  moreover have "nodes ?w' = nodes w" and "objects ?w' = objects w" and "live ?w' = live w"
    and "registry_map ?w' = registry_map w"
    and "reserved_address_space ?w' = reserved_address_space w" and "memory ?w' = memory w"
    by (simp_all add: foldl_update_memory_object)
  moreover have "\<forall>h. array_buffer ?w' h =
        (if h \<in> set ?hs
         then Some \<lparr> ab_backing_store = backing_store,
                     ab_byte_length = byte_length (objects w backing_store) \<rparr>
         else array_buffer w h)"
    by (simp add: foldl_update_memory_object [THEN conjunct1])
  moreover have "trace ?w' = trace w @
       map (\<lambda>entry. RequestGrowSharedMemory_ev (node_isolate entry))
         (filter (\<lambda>entry. \<not> updated_by isolate entry) (attached (nodes w) as)) @
       replicate (length (filter (updated_by isolate) (attached (nodes w) as)))
         (NewJSSharedArrayBuffer_ev isolate)"
    by (simp add: foldl_update_memory_object)
  ultimately show ?thesis
    by blast
qed

text \<open>
  Claim C8. Let the backing store be a shared Wasm memory that has been grown to the size
  \<open>S\<close>, whose anchor heads a list of nodes that ends at a null pointer. Then the broadcast
  of the growth to \<open>S\<close> for the isolate \<open>C\<close> returns, and afterwards: the array buffer of
  every memory object whose node belongs to \<open>C\<close> and has a handle that is not null is a
  buffer on this backing store that reports the length \<open>S\<close>; the array buffer of every
  other memory object is the one it was; for every other node, in the order of the list,
  \<^verbatim>\<open>RequestGrowSharedMemory\<close> has been called on the isolate of the node, which tells that
  isolate to look for the growth later; the nodes and their links, the backing stores and
  the rest of the process are as before.
\<close>

theorem BroadcastSharedWasmMemoryGrow_effect:
  "is_wasm_memory (objects w backing_store) \<and> is_shared (objects w backing_store) \<and>
   byte_length (objects w backing_store) = S \<and>
   type_specific_data (objects w backing_store) \<noteq> 0 \<and>
   fmlookup (nodes w) (type_specific_data (objects w backing_store)) = Some head \<and>
   chain (nodes w) (node_next head) as \<longrightarrow>
     (\<exists>w'. BroadcastSharedWasmMemoryGrow C backing_store S w = Some (Inr w') \<and>
        nodes w' = nodes w \<and> objects w' = objects w \<and> live w' = live w \<and>
        registry_map w' = registry_map w \<and>
        reserved_address_space w' = reserved_address_space w \<and> memory w' = memory w \<and>
        (\<forall>h. array_buffer w' h =
           (if h \<in> set (map node_memory_object
                           (filter (updated_by C) (attached (nodes w) as)))
            then Some \<lparr> ab_backing_store = backing_store, ab_byte_length = S \<rparr>
            else array_buffer w h)) \<and>
        trace w' = trace w @
          map (\<lambda>entry. RequestGrowSharedMemory_ev (node_isolate entry))
            (filter (\<lambda>entry. \<not> updated_by C entry) (attached (nodes w) as)) @
          replicate (length (filter (updated_by C) (attached (nodes w) as)))
            (NewJSSharedArrayBuffer_ev C))"
proof
  assume a: "is_wasm_memory (objects w backing_store) \<and> is_shared (objects w backing_store) \<and>
   byte_length (objects w backing_store) = S \<and>
   type_specific_data (objects w backing_store) \<noteq> 0 \<and>
   fmlookup (nodes w) (type_specific_data (objects w backing_store)) = Some head \<and>
   chain (nodes w) (node_next head) as"
  then have f: "is_wasm_memory (objects w backing_store)" "is_shared (objects w backing_store)"
    "type_specific_data (objects w backing_store) \<noteq> 0"
    "fmlookup (nodes w) (type_specific_data (objects w backing_store)) = Some head"
    "chain (nodes w) (node_next head) as"
    by simp_all
  from a have len: "byte_length (objects w backing_store) = S"
    by simp
  from BroadcastSharedWasmMemoryGrow_result [OF f, of C S, unfolded len]
  show "\<exists>w'. BroadcastSharedWasmMemoryGrow C backing_store S w = Some (Inr w') \<and>
        nodes w' = nodes w \<and> objects w' = objects w \<and> live w' = live w \<and>
        registry_map w' = registry_map w \<and>
        reserved_address_space w' = reserved_address_space w \<and> memory w' = memory w \<and>
        (\<forall>h. array_buffer w' h =
           (if h \<in> set (map node_memory_object
                           (filter (updated_by C) (attached (nodes w) as)))
            then Some \<lparr> ab_backing_store = backing_store, ab_byte_length = S \<rparr>
            else array_buffer w h)) \<and>
        trace w' = trace w @
          map (\<lambda>entry. RequestGrowSharedMemory_ev (node_isolate entry))
            (filter (\<lambda>entry. \<not> updated_by C entry) (attached (nodes w) as)) @
          replicate (length (filter (updated_by C) (attached (nodes w) as)))
            (NewJSSharedArrayBuffer_ev C)" .
qed

lemma shared_world_simps:
  "objects shared_world 5 =
     (wasm_store 4096 131072 131072 False)\<lparr>is_shared := True, type_specific_data := 11\<rparr>"
  "attached (nodes shared_world) [12, 13] =
     [\<lparr> node_next = 13, node_prev = 11, node_isolate = 7, node_memory_object = 100 \<rparr>,
      \<lparr> node_next = 0, node_prev = 12, node_isolate = 8, node_memory_object = 200 \<rparr>]"
  "trace shared_world = []"
  "array_buffer shared_world 100 = Some \<lparr> ab_backing_store = 5, ab_byte_length = 65536 \<rparr>"
  "array_buffer shared_world 200 = Some \<lparr> ab_backing_store = 5, ab_byte_length = 65536 \<rparr>"
  by (simp_all add: shared_world_def world_with_def empty_world_def attached_def
      List.map_filter_simps)

lemma shared_world_list:
  "is_wasm_memory (objects shared_world 5) \<and> is_shared (objects shared_world 5) \<and>
   byte_length (objects shared_world 5) = 131072 \<and>
   type_specific_data (objects shared_world 5) \<noteq> 0 \<and>
   fmlookup (nodes shared_world) (type_specific_data (objects shared_world 5)) =
     Some \<lparr> node_next = 12, node_prev = 0, node_isolate = 0, node_memory_object = 0 \<rparr> \<and>
   chain (nodes shared_world)
     (node_next \<lparr> node_next = 12, node_prev = 0, node_isolate = 0, node_memory_object = 0 \<rparr>)
     [12, 13]"
  by (simp add: shared_world_def world_with_def empty_world_def wasm_store_def)

theorem BroadcastSharedWasmMemoryGrow_effect_witness:
  "is_wasm_memory (objects shared_world 5) \<and> is_shared (objects shared_world 5) \<and>
   byte_length (objects shared_world 5) = 131072 \<and>
   type_specific_data (objects shared_world 5) \<noteq> 0 \<and>
   fmlookup (nodes shared_world) (type_specific_data (objects shared_world 5)) =
     Some \<lparr> node_next = 12, node_prev = 0, node_isolate = 0, node_memory_object = 0 \<rparr> \<and>
   chain (nodes shared_world)
     (node_next \<lparr> node_next = 12, node_prev = 0, node_isolate = 0, node_memory_object = 0 \<rparr>)
     [12, 13] \<and>
   (\<exists>w'. BroadcastSharedWasmMemoryGrow 7 5 131072 shared_world = Some (Inr w') \<and>
      nodes w' = nodes shared_world \<and>
      array_buffer w' 100 = Some \<lparr> ab_backing_store = 5, ab_byte_length = 131072 \<rparr> \<and>
      array_buffer w' 200 = Some \<lparr> ab_backing_store = 5, ab_byte_length = 65536 \<rparr> \<and>
      trace w' = [RequestGrowSharedMemory_ev 8, NewJSSharedArrayBuffer_ev 7])"
proof -
  let ?head = "\<lparr> node_next = 12, node_prev = 0, node_isolate = 0, node_memory_object = 0 \<rparr>"
  note h = shared_world_list
  from BroadcastSharedWasmMemoryGrow_effect [of shared_world 5 131072 ?head "[12, 13]" 7] h
  obtain w' where "BroadcastSharedWasmMemoryGrow 7 5 131072 shared_world = Some (Inr w')"
    and "nodes w' = nodes shared_world"
    and "\<forall>h. array_buffer w' h =
           (if h \<in> set (map node_memory_object
                           (filter (updated_by 7) (attached (nodes shared_world) [12, 13])))
            then Some \<lparr> ab_backing_store = 5, ab_byte_length = 131072 \<rparr>
            else array_buffer shared_world h)"
    and "trace w' = trace shared_world @
          map (\<lambda>entry. RequestGrowSharedMemory_ev (node_isolate entry))
            (filter (\<lambda>entry. \<not> updated_by 7 entry) (attached (nodes shared_world) [12, 13])) @
          replicate (length (filter (updated_by 7) (attached (nodes shared_world) [12, 13])))
            (NewJSSharedArrayBuffer_ev 7)"
    by blast
  then have "BroadcastSharedWasmMemoryGrow 7 5 131072 shared_world = Some (Inr w') \<and>
      nodes w' = nodes shared_world \<and>
      array_buffer w' 100 = Some \<lparr> ab_backing_store = 5, ab_byte_length = 131072 \<rparr> \<and>
      array_buffer w' 200 = Some \<lparr> ab_backing_store = 5, ab_byte_length = 65536 \<rparr> \<and>
      trace w' = [RequestGrowSharedMemory_ev 8, NewJSSharedArrayBuffer_ev 7]"
    by (simp add: shared_world_simps updated_by_def)
  with h show ?thesis
    by blast
qed

subsection \<open>The protection of the pages through an allocation\<close>

lemma protect_other [simp]:
  "protect rw (ReserveAddressSpace_ev n ok) = rw"
  "protect rw (ReleaseReservation_ev n) = rw"
  "protect rw (MemoryPressureNotification_ev isolate rs) = rw"
  "protect rw (RecordStatus_ev isolate status) = rw"
  "protect rw (AllocatePages_ev m alignment 0) = rw"
  "protect rw (SetPermissions_ev start m False) = rw"
  by (rule ext, simp)+

















subsection \<open>Copying\<close>

















subsection \<open>Invariants behind the hypotheses\<close>

text \<open>\<^verbatim>\<open>Register\<close>, when it returns, and \<^verbatim>\<open>Unregister\<close> keep the registry consistent.\<close>

lemma Register_consistent:
  assumes "registry_consistent w" and "Register p w = Inr w1"
  shows "registry_consistent w1"
  using assms unfolding registry_consistent_def Register_cases
  by (auto split: if_splits) (metis option.distinct(1))

lemma Unregister_consistent:
  assumes "registry_consistent w"
  shows "registry_consistent (Unregister p w)"
  using assms unfolding registry_consistent_def Unregister_def Let_def
  by auto (metis option.inject)

lemma empty_world_consistent: "registry_consistent (empty_world c)"
  by (simp add: registry_consistent_def empty_world_def no_store_def)

text \<open>
  The list of a shared Wasm memory that \<^verbatim>\<open>TryAllocateWasmMemory\<close> has made is its anchor
  alone, and a broadcast on it returns.
\<close>

lemma TryAllocateWasmMemory_anchor:
  assumes "TryAllocateWasmMemory cfg env isolate initial_pages maximum_pages kShared w
             = Inr (p, w')"
    and "p \<noteq> 0"
  shows "is_wasm_memory (objects w' p)" and "is_shared (objects w' p)"
    and "type_specific_data (objects w' p) \<noteq> 0"
    and "fmlookup (nodes w') (type_specific_data (objects w' p)) =
           Some \<lparr> node_next = 0, node_prev = 0, node_isolate = 0, node_memory_object = 0 \<rparr>"
    and "chain (nodes w') 0 []"
  using TryAllocateWasmMemory_some(2) [OF assms] TryAllocateWasmMemory_some(9) [OF assms]
  by auto

end
